theory Spec2Isabelle
  imports Complex_Main
begin

section \<open>Robot-Terrain: movement, terrain following and animation control\<close>

text \<open>
  The repository holds two variants of one demo. \<^verbatim>\<open>src/unnamed/part_000\<close> walks the
  robot over a closed-form height field along the world axes (constants and functions
  with suffix \<open>_closed\<close> below); \<^verbatim>\<open>src/main.js\<close> walks it relative to the camera
  over a 3x3 window of terrain tiles whose surface is found by ray casting (suffix
  \<open>_tiled\<close>). JavaScript numbers are modelled as real numbers: rounding of IEEE doubles
  is not part of the model.
\<close>

subsection \<open>Vectors (the operations of THREE.Vector3 that the code calls)\<close>

record vec3 =
  vx :: real
  vy :: real
  vz :: real

definition vec :: "real \<Rightarrow> real \<Rightarrow> real \<Rightarrow> vec3" where
  "vec x y z = \<lparr>vx = x, vy = y, vz = z\<rparr>"

definition vadd :: "vec3 \<Rightarrow> vec3 \<Rightarrow> vec3" where
  "vadd u v = \<lparr>vx = vx u + vx v, vy = vy u + vy v, vz = vz u + vz v\<rparr>"

definition vsub :: "vec3 \<Rightarrow> vec3 \<Rightarrow> vec3" where
  "vsub u v = \<lparr>vx = vx u - vx v, vy = vy u - vy v, vz = vz u - vz v\<rparr>"

definition multiplyScalar :: "vec3 \<Rightarrow> real \<Rightarrow> vec3" where
  "multiplyScalar v k = \<lparr>vx = vx v * k, vy = vy v * k, vz = vz v * k\<rparr>"

definition vlength :: "vec3 \<Rightarrow> real" where
  "vlength v = sqrt (vx v * vx v + vy v * vy v + vz v * vz v)"

text \<open>\<^verbatim>\<open>normalize()\<close> is \<^verbatim>\<open>divideScalar(length() || 1)\<close>: the zero vector stays zero.\<close>

definition normalize :: "vec3 \<Rightarrow> vec3" where
  "normalize v = (let l = vlength v in multiplyScalar v (1 / (if l = 0 then 1 else l)))"

definition crossVectors :: "vec3 \<Rightarrow> vec3 \<Rightarrow> vec3" where
  "crossVectors u v =
     \<lparr>vx = vy u * vz v - vz u * vy v,
      vy = vz u * vx v - vx u * vz v,
      vz = vx u * vy v - vy u * vx v\<rparr>"

subsection \<open>Closed-form terrain (part_000)\<close>

definition TERRAIN_SIZE :: real where "TERRAIN_SIZE = 100"
definition TERRAIN_SEGMENTS :: real where "TERRAIN_SEGMENTS = 100"
definition TERRAIN_HEIGHT :: real where "TERRAIN_HEIGHT = 5"

text \<open>\<^verbatim>\<open>getTerrainHeight\<close> computes two locals it never uses and returns the height.\<close>

definition getTerrainHeight :: "real \<Rightarrow> real \<Rightarrow> real" where
  "getTerrainHeight x z =
     (let terrainX = (x + TERRAIN_SIZE / 2) / TERRAIN_SIZE;
          terrainZ = (z + TERRAIN_SIZE / 2) / TERRAIN_SIZE
      in sin (x * 0.1) * cos (z * 0.1) * TERRAIN_HEIGHT +
         sin (x * 0.2 + z * 0.2) * TERRAIN_HEIGHT * 0.5)"

text \<open>
  The height-map loop of \<^verbatim>\<open>createTerrain\<close>: the position attribute is a flat array of
  (x, y, z) triples, here a list of vertices; each vertex gets its y from its x and z.
\<close>

definition createTerrain_heights :: "vec3 list \<Rightarrow> vec3 list" where
  "createTerrain_heights vertices =
     map (\<lambda>v. v\<lparr>vy := sin (vx v * 0.1) * cos (vz v * 0.1) * TERRAIN_HEIGHT +
                       sin (vx v * 0.2 + vz v * 0.2) * TERRAIN_HEIGHT * 0.5\<rparr>) vertices"

subsection \<open>Input state and animation controller (shared by both variants)\<close>

record keys =
  key_w :: bool
  key_a :: bool
  key_s :: bool
  key_d :: bool
  key_shift :: bool

datatype loopmode = LoopRepeat | LoopOnce

text \<open>An animation action is identified by the clip it plays.\<close>

record action =
  clip :: string
  clampWhenFinished :: bool
  loop :: loopmode

datatype listener = RestoreState

datatype error = TypeError

record 'o actor =
  position :: vec3
  orientation :: 'o

text \<open>
  The module-level variables. \<open>model\<close> and \<open>mixer\<close> are \<open>None\<close> while undefined; the
  mixer is represented by its list of listeners for the event \<^verbatim>\<open>'finished'\<close>. Looking up
  a clip name that was never stored in \<open>actions\<close> yields \<^verbatim>\<open>undefined\<close>, here \<open>None\<close>.
\<close>

record 'o game =
  model :: "'o actor option"
  mixer :: "listener list option"
  actions :: "string \<rightharpoonup> action"
  activeAction :: "action option"
  previousAction :: "action option"
  api_state :: string
  keys :: keys
  currentMovement :: string

text \<open>
  A call either completes with the new state or throws; a throw keeps the mutations made
  before it, so the error carries the state at the throw.
\<close>

type_synonym 's result = "(error \<times> 's) + 's"

definition bind_result :: "'s result \<Rightarrow> ('s \<Rightarrow> 's result) \<Rightarrow> 's result" where
  "bind_result r f = (case r of Inl e \<Rightarrow> Inl e | Inr s \<Rightarrow> f s)"

definition final_state :: "'s result \<Rightarrow> 's" where
  "final_state r = (case r of Inl e \<Rightarrow> snd e | Inr s \<Rightarrow> s)"

definition map_result :: "('s \<Rightarrow> 's) \<Rightarrow> 's result \<Rightarrow> 's result" where
  "map_result f r = (case r of Inl e \<Rightarrow> Inl (fst e, f (snd e)) | Inr s \<Rightarrow> Inr (f s))"

definition throws :: "'s result \<Rightarrow> bool" where
  "throws r = (case r of Inl e \<Rightarrow> True | Inr s \<Rightarrow> False)"

definition initial_keys :: keys where
  "initial_keys = \<lparr>key_w = False, key_a = False, key_s = False, key_d = False, key_shift = False\<rparr>"

definition moveSpeed :: real where "moveSpeed = 0.1"

definition states :: "string list" where
  "states = [''Idle'', ''Walking'', ''Running'', ''Dance'', ''Death'', ''Sitting'', ''Standing'']"

definition emotes :: "string list" where
  "emotes = [''Jump'', ''Yes'', ''No'', ''Wave'', ''Punch'', ''ThumbsUp'']"

fun indexOf_from :: "int \<Rightarrow> 'a list \<Rightarrow> 'a \<Rightarrow> int" where
  "indexOf_from i [] y = - 1"
| "indexOf_from i (x # xs) y = (if x = y then i else indexOf_from (i + 1) xs y)"

definition indexOf :: "'a list \<Rightarrow> 'a \<Rightarrow> int" where
  "indexOf xs y = indexOf_from 0 xs y"

text \<open>\<^verbatim>\<open>mixer.clipAction(clip)\<close>: a fresh action loops and does not clamp.\<close>

definition clipAction :: "string \<Rightarrow> action" where
  "clipAction name = \<lparr>clip = name, clampWhenFinished = False, loop = LoopRepeat\<rparr>"

text \<open>The loop of \<^verbatim>\<open>createGUI\<close> over the clips of the asset, given by their names.\<close>

fun createGUI_clips :: "string list \<Rightarrow> (string \<rightharpoonup> action) \<Rightarrow> (string \<rightharpoonup> action)" where
  "createGUI_clips [] acts = acts"
| "createGUI_clips (name # rest) acts =
     createGUI_clips rest
       (acts(name \<mapsto>
          (if name \<in> set emotes \<or> indexOf states name \<ge> 4
           then (clipAction name)\<lparr>clampWhenFinished := True, loop := LoopOnce\<rparr>
           else clipAction name)))"

text \<open>
  \<^verbatim>\<open>fadeToAction\<close>. \<^verbatim>\<open>previousAction.fadeOut\<close> and \<^verbatim>\<open>activeAction.reset\<close> throw a
  TypeError on \<^verbatim>\<open>undefined\<close>; the weights and times they change live in the animation
  library and are not part of the state.
\<close>

definition fadeToAction ::
  "string \<Rightarrow> real \<Rightarrow> ('o, 'z) game_scheme \<Rightarrow> ('o, 'z) game_scheme result" where
  "fadeToAction name duration s =
     (if activeAction s = actions s name then Inr s
      else
        let s1 = s\<lparr>previousAction := activeAction s\<rparr>;
            s2 = s1\<lparr>activeAction := actions s1 name\<rparr>
        in if previousAction s2 \<noteq> activeAction s2 \<and> previousAction s2 = None
           then Inl (TypeError, s2)
           else if activeAction s2 = None then Inl (TypeError, s2)
           else Inr s2)"

text \<open>
  The asset of the robot as far as \<^verbatim>\<open>createGUI\<close> reads it: the names of its clips, and
  the morph target names of the object called \<^verbatim>\<open>Head_4\<close> when there is one.
\<close>

record gltf =
  animations :: "string list"
  head_4 :: "string list option"

definition createGUI :: "gltf \<Rightarrow> ('o, 'z) game_scheme \<Rightarrow> ('o, 'z) game_scheme result" where
  "createGUI g s =
     (let s1 = s\<lparr>mixer := Some []\<rparr>;
          s2 = s1\<lparr>actions := createGUI_clips (animations g) Map.empty\<rparr>
      in case head_4 g of
           None \<Rightarrow> Inl (TypeError, s2)
         | Some expressions \<Rightarrow>
             let s3 = s2\<lparr>activeAction := actions s2 ''Walking''\<rparr>
             in if activeAction s3 = None then Inl (TypeError, s3) else Inr s3)"

text \<open>The \<^verbatim>\<open>onChange\<close> handler of the state selector; the panel stores the value first.\<close>

definition state_onChange ::
  "string \<Rightarrow> ('o, 'z) game_scheme \<Rightarrow> ('o, 'z) game_scheme result" where
  "state_onChange v s =
     (let s1 = s\<lparr>api_state := v\<rparr>;
          s2 = s1\<lparr>currentMovement := api_state s1\<rparr>
      in fadeToAction (api_state s2) 0.5 s2)"

text \<open>
  The event dispatcher of the animation library registers a listener once: adding a
  function that is already registered changes nothing; removing takes it out.
\<close>

definition addEventListener :: "listener \<Rightarrow> listener list \<Rightarrow> listener list" where
  "addEventListener l ls = (if l \<in> set ls then ls else ls @ [l])"

definition removeEventListener :: "listener \<Rightarrow> listener list \<Rightarrow> listener list" where
  "removeEventListener l ls = remove1 l ls"

text \<open>The handler \<^verbatim>\<open>api[name]\<close> of an emote button.\<close>

definition api_emote ::
  "string \<Rightarrow> ('o, 'z) game_scheme \<Rightarrow> ('o, 'z) game_scheme result" where
  "api_emote name s =
     bind_result (fadeToAction name 0.2 s)
       (\<lambda>s1. case mixer s1 of
                None \<Rightarrow> Inl (TypeError, s1)
              | Some ls \<Rightarrow> Inr (s1\<lparr>mixer := Some (addEventListener RestoreState ls)\<rparr>))"

definition restoreState :: "('o, 'z) game_scheme \<Rightarrow> ('o, 'z) game_scheme result" where
  "restoreState s =
     (case mixer s of
        None \<Rightarrow> Inl (TypeError, s)
      | Some ls \<Rightarrow>
          (let s1 = s\<lparr>mixer := Some (removeEventListener RestoreState ls)\<rparr>
           in fadeToAction (currentMovement s1) 0.2 s1))"

fun callListener :: "listener \<Rightarrow> ('o, 'z) game_scheme \<Rightarrow> ('o, 'z) game_scheme result" where
  "callListener RestoreState s = restoreState s"

text \<open>Dispatching \<^verbatim>\<open>'finished'\<close> calls the listeners registered when the dispatch starts.\<close>

fun dispatch_loop ::
  "listener list \<Rightarrow> ('o, 'z) game_scheme \<Rightarrow> ('o, 'z) game_scheme result" where
  "dispatch_loop [] s = Inr s"
| "dispatch_loop (l # ls) s = bind_result (callListener l s) (dispatch_loop ls)"

definition dispatchFinished :: "('o, 'z) game_scheme \<Rightarrow> ('o, 'z) game_scheme result" where
  "dispatchFinished s =
     (case mixer s of None \<Rightarrow> Inr s | Some ls \<Rightarrow> dispatch_loop ls s)"

text \<open>
  \<^verbatim>\<open>mixer.update(dt)\<close> advances the clips inside the animation library; what the code
  observes of it is the number of \<^verbatim>\<open>'finished'\<close> events it dispatches, taken as input.
\<close>

fun mixerUpdate :: "nat \<Rightarrow> ('o, 'z) game_scheme \<Rightarrow> ('o, 'z) game_scheme result" where
  "mixerUpdate 0 s = Inr s"
| "mixerUpdate (Suc n) s = bind_result (dispatchFinished s) (mixerUpdate n)"

definition toLowerCase :: "string \<Rightarrow> string" where
  "toLowerCase key =
     map (\<lambda>c. if 65 \<le> (of_char c :: nat) \<and> (of_char c :: nat) \<le> 90
               then char_of ((of_char c :: nat) + 32) else c) key"

definition onKeyDown :: "string \<Rightarrow> ('o, 'z) game_scheme \<Rightarrow> ('o, 'z) game_scheme result" where
  "onKeyDown key s =
     (let k = toLowerCase key in
      if k = ''w'' then Inr (s\<lparr>keys := (keys s)\<lparr>key_w := True\<rparr>\<rparr>)
      else if k = ''a'' then Inr (s\<lparr>keys := (keys s)\<lparr>key_a := True\<rparr>\<rparr>)
      else if k = ''s'' then Inr (s\<lparr>keys := (keys s)\<lparr>key_s := True\<rparr>\<rparr>)
      else if k = ''d'' then Inr (s\<lparr>keys := (keys s)\<lparr>key_d := True\<rparr>\<rparr>)
      else if k = ''shift'' then Inr (s\<lparr>keys := (keys s)\<lparr>key_shift := True\<rparr>\<rparr>)
      else if k = '' '' then (if model s \<noteq> None then fadeToAction ''Jump'' 0.2 s else Inr s)
      else Inr s)"

definition onKeyUp :: "string \<Rightarrow> ('o, 'z) game_scheme \<Rightarrow> ('o, 'z) game_scheme" where
  "onKeyUp key s =
     (let k = toLowerCase key in
      if k = ''w'' then s\<lparr>keys := (keys s)\<lparr>key_w := False\<rparr>\<rparr>
      else if k = ''a'' then s\<lparr>keys := (keys s)\<lparr>key_a := False\<rparr>\<rparr>
      else if k = ''s'' then s\<lparr>keys := (keys s)\<lparr>key_s := False\<rparr>\<rparr>
      else if k = ''d'' then s\<lparr>keys := (keys s)\<lparr>key_d := False\<rparr>\<rparr>
      else if k = ''shift'' then s\<lparr>keys := (keys s)\<lparr>key_shift := False\<rparr>\<rparr>
      else s)"

text \<open>The animation step shared by the moving branch of both variants.\<close>

definition locomotion ::
  "('o, 'z) game_scheme \<Rightarrow> ('o, 'z) game_scheme result" where
  "locomotion s =
     (if key_shift (keys s) \<and> currentMovement s \<noteq> ''Running''
      then fadeToAction ''Running'' 0.2 (s\<lparr>currentMovement := ''Running''\<rparr>)
      else if \<not> key_shift (keys s) \<and> currentMovement s \<noteq> ''Walking''
      then fadeToAction ''Walking'' 0.2 (s\<lparr>currentMovement := ''Walking''\<rparr>)
      else Inr s)"

definition standStill ::
  "('o, 'z) game_scheme \<Rightarrow> ('o, 'z) game_scheme result" where
  "standStill s =
     (if currentMovement s \<noteq> ''Idle''
      then fadeToAction ''Idle'' 0.2 (s\<lparr>currentMovement := ''Idle''\<rparr>)
      else Inr s)"

subsection \<open>Movement in the closed-form variant (part_000)\<close>

text \<open>\<^verbatim>\<open>Math.atan2(y, x)\<close> on the reals.\<close>

definition atan2 :: "real \<Rightarrow> real \<Rightarrow> real" where
  "atan2 y x =
     (if x > 0 then arctan (y / x)
      else if x < 0 \<and> y \<ge> 0 then arctan (y / x) + pi
      else if x < 0 then arctan (y / x) - pi
      else if y > 0 then pi / 2
      else if y < 0 then - pi / 2
      else 0)"

definition moveDirection_closed :: "keys \<Rightarrow> vec3" where
  "moveDirection_closed k =
     (let d0 = vec 0 0 0;
          d1 = (if key_w k then d0\<lparr>vz := vz d0 - 1\<rparr> else d0);
          d2 = (if key_s k then d1\<lparr>vz := vz d1 + 1\<rparr> else d1);
          d3 = (if key_a k then d2\<lparr>vx := vx d2 - 1\<rparr> else d2)
      in if key_d k then d3\<lparr>vx := vx d3 + 1\<rparr> else d3)"

text \<open>The orientation of the actor is \<^verbatim>\<open>model.rotation.y\<close>.\<close>

definition updateRobotMovement_closed :: "real game \<Rightarrow> real game result" where
  "updateRobotMovement_closed s =
     (case model s of
        None \<Rightarrow> Inr s
      | Some m \<Rightarrow>
          let moveDirection = moveDirection_closed (keys s)
          in if vlength moveDirection > 0 then
               let dir = normalize moveDirection;
                   speed = (if key_shift (keys s) then moveSpeed * 2 else moveSpeed);
                   p0 = position m;
                   p1 = p0\<lparr>vx := vx p0 + vx dir * speed\<rparr>;
                   p2 = p1\<lparr>vz := vz p1 + vz dir * speed\<rparr>;
                   newPos = p2\<lparr>vy := getTerrainHeight (vx p2) (vz p2)\<rparr>;
                   targetRotation = atan2 (vx dir) (vz dir);
                   s1 = s\<lparr>model := Some (m\<lparr>position := newPos, orientation := targetRotation\<rparr>)\<rparr>
               in locomotion s1
             else standStill s)"

text \<open>
  One frame; the argument is the number of \<^verbatim>\<open>'finished'\<close> events of this mixer update.
  Orbit controls, rendering and the stats overlay do not touch the modelled state.
\<close>

definition animate_closed :: "nat \<Rightarrow> real game \<Rightarrow> real game result" where
  "animate_closed nfin s =
     bind_result (if mixer s \<noteq> None then mixerUpdate nfin s else Inr s)
       updateRobotMovement_closed"

definition initial_closed :: "real game" where
  "initial_closed =
     \<lparr>model = None, mixer = None, actions = Map.empty, activeAction = None,
      previousAction = None, api_state = ''Walking'', keys = initial_keys,
      currentMovement = ''Idle''\<rparr>"

text \<open>The load callback of the robot: a fresh scene object sits at the origin, unrotated.\<close>

definition onRobotLoaded_closed :: "gltf \<Rightarrow> real game \<Rightarrow> real game result" where
  "onRobotLoaded_closed g s =
     createGUI g (s\<lparr>model := Some \<lparr>position = vec 0 0 0, orientation = 0\<rparr>\<rparr>)"

subsection \<open>Terrain tiles and ray queries in the tiled variant (main.js)\<close>

record quat =
  qx :: real
  qy :: real
  qz :: real
  qw :: real

text \<open>A tile is a clone of the base tile; the clones differ in their position only.\<close>

record tile =
  tile_position :: vec3

record hit =
  distance :: real
  point :: vec3

record raycaster =
  origin :: vec3
  direction :: vec3

text \<open>
  The functions of the 3D library whose results the code uses, taken as parameters:
  \<^verbatim>\<open>raycaster.intersectObject(tile, true)\<close>, \<^verbatim>\<open>Quaternion.setFromUnitVectors\<close>,
  \<^verbatim>\<open>Quaternion.slerp\<close>, \<^verbatim>\<open>Vector3.applyQuaternion\<close>, and the world direction of the
  camera after \<^verbatim>\<open>camera.lookAt\<close> from a given camera position.
\<close>

record three =
  intersectObject :: "raycaster \<Rightarrow> tile \<Rightarrow> hit list"
  setFromUnitVectors :: "vec3 \<Rightarrow> vec3 \<Rightarrow> quat"
  slerp :: "quat \<Rightarrow> quat \<Rightarrow> real \<Rightarrow> quat"
  applyQuaternion :: "vec3 \<Rightarrow> quat \<Rightarrow> vec3"
  lookAt :: "vec3 \<Rightarrow> vec3 \<Rightarrow> vec3"

record tiled = "quat game" +
  terrainTiles :: "tile list"
  camera_position :: vec3
  camera_direction :: vec3

definition tileSize :: real where "tileSize = 20"
definition scaleFactor :: real where "scaleFactor = 5"
definition tileRepeat :: int where "tileRepeat = 3"

definition createTerrainGrid :: "tiled \<Rightarrow> tiled" where
  "createTerrainGrid s =
     (let half = tileRepeat div 2;
          tileSpacing = tileSize * scaleFactor * 0.99
      in s\<lparr>terrainTiles := terrainTiles s @
             concat (map (\<lambda>i. map (\<lambda>j. \<lparr>tile_position =
                                             vec (of_int i * tileSpacing) 0 (of_int j * tileSpacing)\<rparr>)
                                   [- half ..half])
                         [- half ..half])\<rparr>)"

text \<open>\<^verbatim>\<open>Math.round\<close> rounds to the nearest integer, halves towards plus infinity.\<close>

definition Math_round :: "real \<Rightarrow> real" where
  "Math_round x = of_int \<lfloor>x + 1 / 2\<rfloor>"

text \<open>
  The double loop of \<^verbatim>\<open>repositionTerrain\<close> over the offsets (i, j), i outermost, with
  its running index: a slot is written, and the index advanced, only while
  \<^verbatim>\<open>terrainTiles[idx]\<close> exists.
\<close>

fun repositionTerrain_loop ::
  "real \<Rightarrow> real \<Rightarrow> real \<Rightarrow> (int \<times> int) list \<Rightarrow> nat \<Rightarrow> tile list \<Rightarrow> tile list" where
  "repositionTerrain_loop centerX centerZ spacing [] idx ts = ts"
| "repositionTerrain_loop centerX centerZ spacing ((i, j) # rest) idx ts =
     (if idx < length ts
      then repositionTerrain_loop centerX centerZ spacing rest (Suc idx)
             (ts[idx := (ts ! idx)\<lparr>tile_position :=
                           vec (centerX + of_int i * spacing) 0 (centerZ + of_int j * spacing)\<rparr>])
      else repositionTerrain_loop centerX centerZ spacing rest idx ts)"

definition repositionTerrain_at :: "vec3 \<Rightarrow> tile list \<Rightarrow> tile list" where
  "repositionTerrain_at pos ts =
     (let spacing = tileSize * scaleFactor * 0.99;
          centerX = Math_round (vx pos / spacing) * spacing;
          centerZ = Math_round (vz pos / spacing) * spacing
      in repositionTerrain_loop centerX centerZ spacing
           (List.product [- 1, 0, 1] [- 1, 0, 1]) 0 ts)"

text \<open>\<^verbatim>\<open>repositionTerrain\<close> reads the position of the global \<^verbatim>\<open>model\<close>.\<close>

definition repositionTerrain :: "tiled \<Rightarrow> tiled result" where
  "repositionTerrain s =
     (case model s of
        None \<Rightarrow> Inl (TypeError, s)
      | Some m \<Rightarrow> Inr (s\<lparr>terrainTiles := repositionTerrain_at (position m) (terrainTiles s)\<rparr>))"

text \<open>
  The loop of \<^verbatim>\<open>updateRobotMovement\<close> that gathers the hits of the ray: every tile is
  tested, and the hits of a tile that has some are appended.
\<close>

fun collectHits :: "(tile \<Rightarrow> hit list) \<Rightarrow> tile list \<Rightarrow> hit list \<Rightarrow> hit list" where
  "collectHits f [] intersections = intersections"
| "collectHits f (t # ts) intersections =
     (let hits = f t
      in if length hits > 0 then collectHits f ts (intersections @ hits)
         else collectHits f ts intersections)"

text \<open>
  The height taken from the gathered hits in \<^verbatim>\<open>updateRobotMovement\<close>: the hits are
  sorted by distance (the sort is stable) and the first one is read; 0 without a hit.
\<close>

definition groundHeight :: "hit list \<Rightarrow> real" where
  "groundHeight intersections =
     (if length intersections > 0
      then vy (point (hd (sort_key distance intersections)))
      else 0)"

definition downRay :: "real \<Rightarrow> real \<Rightarrow> real \<Rightarrow> raycaster" where
  "downRay x y z = \<lparr>origin = vec x y z, direction = vec 0 (- 1) 0\<rparr>"

text \<open>The sum of the key contributions along the camera basis.\<close>

definition direction_tiled :: "keys \<Rightarrow> vec3 \<Rightarrow> vec3 \<Rightarrow> vec3" where
  "direction_tiled k forward right =
     (let d0 = vec 0 0 0;
          d1 = (if key_w k then vadd d0 forward else d0);
          d2 = (if key_s k then vsub d1 forward else d1);
          d3 = (if key_a k then vsub d2 right else d2)
      in if key_d k then vadd d3 right else d3)"

text \<open>
  The camera basis (its world direction flattened and normalised, and the vector to its
  right) and the movement vector composed from the keys.
\<close>

definition cameraRelativeDirection :: "tiled \<Rightarrow> vec3" where
  "cameraRelativeDirection s =
     (let forward = normalize ((camera_direction s)\<lparr>vy := 0\<rparr>);
          right = normalize (crossVectors forward (vec 0 1 0))
      in direction_tiled (keys s) forward right)"

definition updateRobotMovement_tiled :: "three \<Rightarrow> tiled \<Rightarrow> tiled result" where
  "updateRobotMovement_tiled lib s =
     (case model s of
        None \<Rightarrow> Inr s
      | Some m \<Rightarrow>
          if length (terrainTiles s) = 0 then Inr s
          else
            let direction = cameraRelativeDirection s
            in if vlength direction > 0 then
                 let dir = normalize direction;
                     speed = (if key_shift (keys s) then moveSpeed * 2 else moveSpeed);
                     velocity = multiplyScalar dir speed;
                     newPos = vadd (position m) velocity;
                     rc = downRay (vx newPos) 20 (vz newPos);
                     intersections = collectHits (intersectObject lib rc) (terrainTiles s) [];
                     newPos' = newPos\<lparr>vy := groundHeight intersections\<rparr>;
                     targetQuaternion = setFromUnitVectors lib (vec 0 0 1) (normalize dir);
                     s1 = s\<lparr>model := Some (m\<lparr>position := newPos',
                                                orientation := slerp lib (orientation m) targetQuaternion 0.2\<rparr>)\<rparr>
                 in bind_result (locomotion s1) repositionTerrain
               else standStill s)"

text \<open>
  The placement of the robot half a second after it was loaded (the timer callback in
  \<^verbatim>\<open>init\<close>): the hits of all tiles are concatenated in tile order and the first is read.
\<close>

definition spawn :: "three \<Rightarrow> tiled \<Rightarrow> tiled result" where
  "spawn lib s =
     (let spawnPos = vec 0 20 0;
          rc = \<lparr>origin = spawnPos, direction = vec 0 (- 1) 0\<rparr>;
          hits = concat (map (intersectObject lib rc) (terrainTiles s))
      in case model s of
           None \<Rightarrow> Inl (TypeError, s)
         | Some m \<Rightarrow>
             if length hits > 0 then Inr (s\<lparr>model := Some (m\<lparr>position := point (hd hits)\<rparr>)\<rparr>)
             else Inr (s\<lparr>model := Some (m\<lparr>position := vec 0 0 0\<rparr>)\<rparr>))"

definition lerp :: "vec3 \<Rightarrow> vec3 \<Rightarrow> real \<Rightarrow> vec3" where
  "lerp u v alpha =
     \<lparr>vx = vx u + (vx v - vx u) * alpha,
      vy = vy u + (vy v - vy u) * alpha,
      vz = vz u + (vz v - vz u) * alpha\<rparr>"

text \<open>The ground clearance of the camera: the first gathered hit is read, unsorted.\<close>

definition cameraGround :: "three \<Rightarrow> tile list \<Rightarrow> vec3 \<Rightarrow> vec3" where
  "cameraGround lib ts desiredCameraPos =
     (let rc = downRay (vx desiredCameraPos) (vy desiredCameraPos + 10) (vz desiredCameraPos);
          intersects = concat (map (intersectObject lib rc) ts)
      in if length intersects > 0 then
           let groundY = vy (point (hd intersects))
           in if vy desiredCameraPos < groundY + 2.5
              then desiredCameraPos\<lparr>vy := groundY + 2.5\<rparr>
              else desiredCameraPos
         else desiredCameraPos)"

definition updateThirdPersonCamera :: "three \<Rightarrow> tiled \<Rightarrow> tiled" where
  "updateThirdPersonCamera lib s =
     (case model s of
        None \<Rightarrow> s
      | Some m \<Rightarrow>
          let offset = vec 0 5 (- 10);
              cameraTarget = position m;
              cameraOffset = applyQuaternion lib offset (orientation m);
              desiredCameraPos = cameraGround lib (terrainTiles s) (vadd cameraTarget cameraOffset);
              campos = lerp (camera_position s) desiredCameraPos 0.1;
              lookTarget = vadd (position m) (vec 0 2 0)
          in s\<lparr>camera_position := campos, camera_direction := lookAt lib campos lookTarget\<rparr>)"

definition animate_tiled :: "three \<Rightarrow> nat \<Rightarrow> tiled \<Rightarrow> tiled result" where
  "animate_tiled lib nfin s =
     bind_result
       (bind_result (if mixer s \<noteq> None then mixerUpdate nfin s else Inr s)
          (updateRobotMovement_tiled lib))
       (\<lambda>s'. Inr (updateThirdPersonCamera lib s'))"

text \<open>
  The module state after \<^verbatim>\<open>init\<close> has placed the camera at (-5, 3, 10) looking at
  (0, 2, 0).
\<close>

definition initial_tiled :: "three \<Rightarrow> tiled" where
  "initial_tiled lib =
     \<lparr>model = None, mixer = None, actions = Map.empty, activeAction = None,
      previousAction = None, api_state = ''Walking'', keys = initial_keys,
      currentMovement = ''Idle'', terrainTiles = [],
      camera_position = vec (- 5) 3 10,
      camera_direction = lookAt lib (vec (- 5) 3 10) (vec 0 2 0)\<rparr>"

definition onRobotLoaded_tiled :: "gltf \<Rightarrow> tiled \<Rightarrow> tiled result" where
  "onRobotLoaded_tiled g s =
     createGUI g (s\<lparr>model := Some \<lparr>position = vec 0 0 0,
                                     orientation = \<lparr>qx = 0, qy = 0, qz = 0, qw = 1\<rparr>\<rparr>\<rparr>)"

subsection \<open>Sequences of ticks and events\<close>

text \<open>
  \<open>n\<close> calls of \<^verbatim>\<open>updateRobotMovement\<close> in a row with the keys as they are; the
  sequence stops at the first call that throws.
\<close>

fun ticks_closed :: "nat \<Rightarrow> real game \<Rightarrow> real game result" where
  "ticks_closed 0 s = Inr s"
| "ticks_closed (Suc n) s = bind_result (updateRobotMovement_closed s) (ticks_closed n)"

text \<open>
  What reaches the program from outside: key events, the operations of the debug panel,
  and frames (with the number of \<^verbatim>\<open>'finished'\<close> events of the mixer update); in
  main.js also the arrival of the terrain asset and the timer that places the robot.
  These two do not exist in part_000, whose step leaves the state alone on them. A run
  is followed up to the first handler that throws.
\<close>

datatype event =
  KeyDown string
  | KeyUp string
  | SelectState string
  | Emote string
  | Frame nat
  | TerrainLoaded
  | SpawnTimer

fun step_closed :: "event \<Rightarrow> real game \<Rightarrow> real game result" where
  "step_closed (KeyDown k) s = onKeyDown k s"
| "step_closed (KeyUp k) s = Inr (onKeyUp k s)"
| "step_closed (SelectState v) s = state_onChange v s"
| "step_closed (Emote name) s = api_emote name s"
| "step_closed (Frame n) s = animate_closed n s"
| "step_closed TerrainLoaded s = Inr s"
| "step_closed SpawnTimer s = Inr s"

fun step_tiled :: "three \<Rightarrow> event \<Rightarrow> tiled \<Rightarrow> tiled result" where
  "step_tiled lib (KeyDown k) s = onKeyDown k s"
| "step_tiled lib (KeyUp k) s = Inr (onKeyUp k s)"
| "step_tiled lib (SelectState v) s = state_onChange v s"
| "step_tiled lib (Emote name) s = api_emote name s"
| "step_tiled lib (Frame n) s = animate_tiled lib n s"
| "step_tiled lib TerrainLoaded s = Inr (createTerrainGrid s)"
| "step_tiled lib SpawnTimer s = spawn lib s"

fun run :: "(event \<Rightarrow> 's \<Rightarrow> 's result) \<Rightarrow> event list \<Rightarrow> 's \<Rightarrow> 's result" where
  "run step [] s = Inr s"
| "run step (e # es) s = bind_result (step e s) (run step es)"

text \<open>
  An event sequence is quiet from a state when it holds no panel operation, no emote and
  no press of the jump key (any other key may go down or up), and at every frame the
  held keys cancel (forward equals back, left equals right): no net direction.
\<close>

definition jumpKey :: "string \<Rightarrow> bool" where
  "jumpKey k = (toLowerCase k = '' '')"

definition noNetDirection :: "keys \<Rightarrow> bool" where
  "noNetDirection k = (key_w k = key_s k \<and> key_a k = key_d k)"

fun quietEvent :: "keys \<Rightarrow> event \<Rightarrow> bool" where
  "quietEvent k (KeyDown key) = (\<not> jumpKey key)"
| "quietEvent k (KeyUp key) = True"
| "quietEvent k (Frame n) = noNetDirection k"
| "quietEvent k (SelectState v) = False"
| "quietEvent k (Emote name) = False"
| "quietEvent k TerrainLoaded = True"
| "quietEvent k SpawnTimer = True"

fun quiet ::
  "(event \<Rightarrow> ('o, 'z) game_scheme \<Rightarrow> ('o, 'z) game_scheme result) \<Rightarrow>
   ('o, 'z) game_scheme \<Rightarrow> event list \<Rightarrow> bool" where
  "quiet step s [] = True"
| "quiet step s (e # es) = (quietEvent (keys s) e \<and> quiet step (final_state (step e s)) es)"

text \<open>Distance between two positions in the horizontal plane.\<close>

definition horizontalDistance :: "vec3 \<Rightarrow> vec3 \<Rightarrow> real" where
  "horizontalDistance p q = sqrt ((vx q - vx p) * (vx q - vx p) + (vz q - vz p) * (vz q - vz p))"

text \<open>Forward held alone, with or without the sprint modifier.\<close>

definition forwardKeys :: "bool \<Rightarrow> keys" where
  "forwardKeys sprint =
     \<lparr>key_w = True, key_a = False, key_s = False, key_d = False, key_shift = sprint\<rparr>"

text \<open>Forward and back held together, and no directional key held; sprint as given.\<close>

definition opposingKeys :: "bool \<Rightarrow> keys" where
  "opposingKeys sprint =
     \<lparr>key_w = True, key_a = False, key_s = True, key_d = False, key_shift = sprint\<rparr>"

definition noKeys :: "bool \<Rightarrow> keys" where
  "noKeys sprint =
     \<lparr>key_w = False, key_a = False, key_s = False, key_d = False, key_shift = sprint\<rparr>"

subsection \<open>Concrete assets and states used in the examples\<close>

text \<open>The clips and the morph targets of the robot asset the demo loads.\<close>

definition robot_gltf :: gltf where
  "robot_gltf =
     \<lparr>animations = [''Dance'', ''Death'', ''Idle'', ''Jump'', ''No'', ''Punch'', ''Running'',
                     ''Sitting'', ''Standing'', ''ThumbsUp'', ''Walking'', ''WalkJump'',
                     ''Wave'', ''Yes''],
      head_4 = Some [''Angry'', ''Surprised'', ''Sad'']\<rparr>"

text \<open>An asset with the same head whose only clips are Idle and Walking.\<close>

definition sparse_gltf :: gltf where
  "sparse_gltf = \<lparr>animations = [''Idle'', ''Walking''], head_4 = Some []\<rparr>"

definition robot_ready_closed :: "real game" where
  "robot_ready_closed = final_state (onRobotLoaded_closed robot_gltf initial_closed)"

definition sparse_ready_closed :: "real game" where
  "sparse_ready_closed = final_state (onRobotLoaded_closed sparse_gltf initial_closed)"

text \<open>
  A library stub for the examples: the rays hit nothing, rotations are left alone and the
  camera looks level along negative z wherever it stands.
\<close>

definition flat_three :: three where
  "flat_three =
     \<lparr>intersectObject = (\<lambda>rc t. []),
      setFromUnitVectors = (\<lambda>u v. \<lparr>qx = 0, qy = 0, qz = 0, qw = 1\<rparr>),
      slerp = (\<lambda>q r t. q),
      applyQuaternion = (\<lambda>v q. v),
      lookAt = (\<lambda>eye target. vec 0 0 (- 1))\<rparr>"

definition sparse_ready_tiled :: tiled where
  "sparse_ready_tiled =
     createTerrainGrid (final_state (onRobotLoaded_tiled sparse_gltf (initial_tiled flat_three)))"

text \<open>
  A stepped tile geometry for the examples: every tile covers the square of half-width
  \<open>w\<close> around its position, and its surface is 4 units high on the half with negative
  local x and at height 0 on the other half. A downward ray hits each tile it is above
  once, at the distance from its origin down to that surface.
\<close>

definition stepped_three :: "real \<Rightarrow> three" where
  "stepped_three w =
     flat_three\<lparr>intersectObject :=
       (\<lambda>rc t.
          let lx = vx (origin rc) - vx (tile_position t);
              lz = vz (origin rc) - vz (tile_position t);
              h = vy (tile_position t) + (if lx < 0 then 4 else 0)
          in if \<bar>lx\<bar> \<le> w \<and> \<bar>lz\<bar> \<le> w
             then [\<lparr>distance = vy (origin rc) - h,
                    point = vec (vx (origin rc)) h (vz (origin rc))\<rparr>]
             else [])\<rparr>"

text \<open>
  The tiled variant with the robot loaded, the terrain asset not (yet) arrived, and the
  state Dance chosen in the panel.
\<close>

definition dancing_without_tiles :: tiled where
  "dancing_without_tiles =
     final_state (state_onChange ''Dance''
       (final_state (onRobotLoaded_tiled robot_gltf (initial_tiled flat_three))))"

text \<open>The tiled variant once the robot and the nine terrain tiles are loaded.\<close>

definition robot_ready_tiled :: "three \<Rightarrow> tiled" where
  "robot_ready_tiled lib =
     createTerrainGrid (final_state (onRobotLoaded_tiled robot_gltf (initial_tiled lib)))"

text \<open>
  The stub with the camera aimed as \<^verbatim>\<open>lookAt\<close> aims it: its world direction is the unit
  vector from its position to its target. Rotations are still left alone, so the camera
  offset stays (0, 5, -10).
\<close>

definition follow_three :: three where
  "follow_three = flat_three\<lparr>lookAt := (\<lambda>eye target. normalize (vsub target eye))\<rparr>"

text \<open>
  The loaded scene with the robot at the origin after the camera was orbited to
  (-3, 3, 4); the orbit controls aim it at their target (0, 2, 0).
\<close>

definition orbited_tiled :: tiled where
  "orbited_tiled =
     (robot_ready_tiled follow_three)
       \<lparr>camera_position := vec (- 3) 3 4,
        camera_direction := lookAt follow_three (vec (- 3) 3 4) (vec 0 2 0)\<rparr>"

section \<open>Properties\<close>

subsection \<open>Outcomes of calls\<close>

text \<open>
  There is one kind of error, so an outcome is determined by whether it throws and by the
  state it leaves.
\<close>

lemma error_is_TypeError: "(e :: error) = TypeError"
  by (cases e) simp

lemma result_eqI:
  "throws r = throws r' \<Longrightarrow> final_state r = final_state r' \<Longrightarrow> r = r'"
  by (cases r; cases r')
     (auto simp: throws_def final_state_def intro: error_is_TypeError[THEN trans, OF error_is_TypeError[symmetric]])

lemma result_simps [simp]:
  "throws (Inr s) = False" "throws (Inl e) = True"
  "final_state (Inr s) = s" "final_state (Inl (x, s)) = s"
  by (simp_all add: throws_def final_state_def)

lemma not_throws_Inr: "\<not> throws r \<Longrightarrow> r = Inr (final_state r)"
  by (cases r) simp_all

lemma throws_bind [simp]:
  "throws (bind_result r f) = (throws r \<or> throws (f (final_state r)))"
  by (cases r) (auto simp: bind_result_def)

lemma final_bind:
  "final_state (bind_result r f) = (if throws r then final_state r else final_state (f (final_state r)))"
  by (cases r) (auto simp: bind_result_def)

lemma bind_Inr [simp]: "bind_result (Inr s) f = f s"
  by (simp add: bind_result_def)

lemma throws_map_result [simp]: "throws (map_result f r) = throws r"
  by (cases r) (auto simp: map_result_def)

lemma final_map_result [simp]: "final_state (map_result f r) = f (final_state r)"
  by (cases r) (auto simp: map_result_def)

subsection \<open>Crossfades\<close>

lemma throws_fadeToAction:
  "throws (fadeToAction name d s) =
     (activeAction s \<noteq> actions s name \<and> (activeAction s = None \<or> actions s name = None))"
  by (auto simp: fadeToAction_def Let_def)

lemma final_fadeToAction:
  "final_state (fadeToAction name d s) =
     (if activeAction s = actions s name then s
      else s\<lparr>previousAction := activeAction s, activeAction := actions s name\<rparr>)"
  by (auto simp: fadeToAction_def Let_def)

lemma final_standStill:
  "final_state (standStill s) =
     (if currentMovement s = ''Idle'' then s
      else if activeAction s = actions s ''Idle'' then s\<lparr>currentMovement := ''Idle''\<rparr>
      else s\<lparr>currentMovement := ''Idle'', previousAction := activeAction s,
             activeAction := actions s ''Idle''\<rparr>)"
  by (simp add: standStill_def final_fadeToAction)

lemma throws_standStill:
  "throws (standStill s) =
     (currentMovement s \<noteq> ''Idle'' \<and> activeAction s \<noteq> actions s ''Idle'' \<and>
      (activeAction s = None \<or> actions s ''Idle'' = None))"
  by (auto simp: standStill_def throws_fadeToAction)

lemma final_locomotion:
  "final_state (locomotion s) =
     (let target = (if key_shift (keys s) then ''Running'' else ''Walking'')
      in if currentMovement s = target then s
         else if activeAction s = actions s target then s\<lparr>currentMovement := target\<rparr>
         else s\<lparr>currentMovement := target, previousAction := activeAction s,
                activeAction := actions s target\<rparr>)"
  by (simp add: locomotion_def final_fadeToAction Let_def)

lemma throws_locomotion:
  "throws (locomotion s) =
     (let target = (if key_shift (keys s) then ''Running'' else ''Walking'')
      in currentMovement s \<noteq> target \<and> activeAction s \<noteq> actions s target \<and>
         (activeAction s = None \<or> actions s target = None))"
  by (auto simp: locomotion_def throws_fadeToAction Let_def)

lemma model_final_locomotion [simp]: "model (final_state (locomotion s)) = model s"
  by (simp add: final_locomotion Let_def)

lemma currentMovement_final_locomotion:
  "currentMovement (final_state (locomotion s)) =
     (if key_shift (keys s) then ''Running'' else ''Walking'')"
  by (simp add: final_locomotion Let_def)

subsection \<open>Vectors\<close>

lemma vlength_zero [simp]: "vlength (vec 0 0 0) = 0"
  by (simp add: vlength_def vec_def)

lemma vlength_multiplyScalar: "vlength (multiplyScalar v k) = \<bar>k\<bar> * vlength v"
proof -
  have "vx v * k * (vx v * k) + vy v * k * (vy v * k) + vz v * k * (vz v * k) =
        k\<^sup>2 * (vx v * vx v + vy v * vy v + vz v * vz v)"
    by (simp add: power2_eq_square algebra_simps)
  then show ?thesis
    by (simp add: vlength_def multiplyScalar_def real_sqrt_mult)
qed

lemma vlength_normalize: "0 < vlength v \<Longrightarrow> vlength (normalize v) = 1"
  by (simp add: normalize_def Let_def vlength_multiplyScalar)

subsection \<open>The closed-form height\<close>

lemma createTerrain_matches_query:
  "v \<in> set (createTerrain_heights vs) \<Longrightarrow> vy v = getTerrainHeight (vx v) (vz v)"
  by (auto simp: createTerrain_heights_def getTerrainHeight_def)

text \<open>
  Over the reals the height is the sum of the two sine terms with the frequencies 0.1 and
  0.2 and the amplitudes 5 and 5 / 2. The code adds x * 0.2 and z * 0.2; in double
  precision that sum and (x + z) * 0.2 round differently, which this model does not see.
\<close>

lemma getTerrainHeight_over_reals:
  "getTerrainHeight x z =
     sin (x * 0.1) * cos (z * 0.1) * TERRAIN_HEIGHT + sin ((x + z) * 0.2) * TERRAIN_HEIGHT / 2
   \<and> TERRAIN_HEIGHT = 5"
  by (simp add: getTerrainHeight_def TERRAIN_HEIGHT_def add_divide_distrib)

subsection \<open>The example states, evaluated\<close>

lemma robot_actions:
  "createGUI_clips (animations robot_gltf) Map.empty ''Walking'' = Some (clipAction ''Walking'')"
  "createGUI_clips (animations robot_gltf) Map.empty ''Idle'' = Some (clipAction ''Idle'')"
  "createGUI_clips (animations robot_gltf) Map.empty ''Running'' = Some (clipAction ''Running'')"
  "createGUI_clips (animations robot_gltf) Map.empty ''Dance'' = Some (clipAction ''Dance'')"
  "createGUI_clips (animations robot_gltf) Map.empty ''Jump'' =
     Some \<lparr>clip = ''Jump'', clampWhenFinished = True, loop = LoopOnce\<rparr>"
  by (simp_all add: robot_gltf_def emotes_def states_def indexOf_def clipAction_def)

lemma robot_head: "head_4 robot_gltf = Some [''Angry'', ''Surprised'', ''Sad'']"
  by (simp add: robot_gltf_def)

lemma robot_ready_closed_eq:
  "robot_ready_closed =
     \<lparr>model = Some \<lparr>position = vec 0 0 0, orientation = 0\<rparr>, mixer = Some [],
      actions = createGUI_clips (animations robot_gltf) Map.empty,
      activeAction = Some (clipAction ''Walking''), previousAction = None,
      api_state = ''Walking'', keys = initial_keys, currentMovement = ''Idle''\<rparr>"
  by (simp add: robot_ready_closed_def onRobotLoaded_closed_def createGUI_def initial_closed_def
        Let_def robot_actions robot_head)

lemma robot_ready_tiled_eq:
  "robot_ready_tiled lib =
     \<lparr>model = Some \<lparr>position = vec 0 0 0, orientation = \<lparr>qx = 0, qy = 0, qz = 0, qw = 1\<rparr>\<rparr>,
      mixer = Some [],
      actions = createGUI_clips (animations robot_gltf) Map.empty,
      activeAction = Some (clipAction ''Walking''), previousAction = None,
      api_state = ''Walking'', keys = initial_keys, currentMovement = ''Idle'',
      terrainTiles = map (\<lambda>p. \<lparr>tile_position = p\<rparr>)
        [vec (- 99) 0 (- 99), vec (- 99) 0 0, vec (- 99) 0 99,
         vec 0 0 (- 99), vec 0 0 0, vec 0 0 99,
         vec 99 0 (- 99), vec 99 0 0, vec 99 0 99],
      camera_position = vec (- 5) 3 10,
      camera_direction = lookAt lib (vec (- 5) 3 10) (vec 0 2 0)\<rparr>"
  by (simp add: robot_ready_tiled_def onRobotLoaded_tiled_def createGUI_def initial_tiled_def
        Let_def robot_actions createTerrainGrid_def tileRepeat_def tileSize_def scaleFactor_def
        upto.simps robot_head)

lemma dancing_without_tiles_eq:
  "dancing_without_tiles =
     \<lparr>model = Some \<lparr>position = vec 0 0 0, orientation = \<lparr>qx = 0, qy = 0, qz = 0, qw = 1\<rparr>\<rparr>,
      mixer = Some [],
      actions = createGUI_clips (animations robot_gltf) Map.empty,
      activeAction = Some (clipAction ''Dance''), previousAction = Some (clipAction ''Walking''),
      api_state = ''Dance'', keys = initial_keys, currentMovement = ''Dance'',
      terrainTiles = [],
      camera_position = vec (- 5) 3 10,
      camera_direction = vec 0 0 (- 1)\<rparr>"
  by (simp add: dancing_without_tiles_def onRobotLoaded_tiled_def createGUI_def initial_tiled_def
        Let_def robot_actions state_onChange_def final_fadeToAction flat_three_def robot_head
        clipAction_def)

lemma robot_tiles:
  "terrainTiles (robot_ready_tiled lib) = map (\<lambda>p. \<lparr>tile_position = p\<rparr>)
        [vec (- 99) 0 (- 99), vec (- 99) 0 0, vec (- 99) 0 99,
         vec 0 0 (- 99), vec 0 0 0, vec 0 0 99,
         vec 99 0 (- 99), vec 99 0 0, vec 99 0 99]"
  by (simp add: robot_ready_tiled_eq)

subsection \<open>Recentering the tiles\<close>

lemma repositionTerrain_loop_length:
  "length (repositionTerrain_loop cx cz sp offs idx ts) = length ts"
  by (induction cx cz sp offs idx ts rule: repositionTerrain_loop.induct) simp_all

lemma repositionTerrain_loop_nth:
  "k < length ts \<Longrightarrow>
   repositionTerrain_loop cx cz sp offs idx ts ! k =
     (if idx \<le> k \<and> k < idx + length offs
      then (ts ! k)\<lparr>tile_position :=
             vec (cx + of_int (fst (offs ! (k - idx))) * sp) 0
                 (cz + of_int (snd (offs ! (k - idx))) * sp)\<rparr>
      else ts ! k)"
proof (induction cx cz sp offs idx ts rule: repositionTerrain_loop.induct)
  case (1 cx cz sp idx ts)
  then show ?case by simp
next
  case (2 cx cz sp i j rest idx ts)
  show ?case
  proof (cases "idx < length ts")
    case True
    with 2 show ?thesis
      by (auto simp: nth_list_update nth_Cons')
  next
    case False
    with 2 show ?thesis by auto
  qed
qed

lemma repositionTerrain_loop_idem:
  "repositionTerrain_loop cx cz sp offs idx (repositionTerrain_loop cx cz sp offs idx ts) =
   repositionTerrain_loop cx cz sp offs idx ts"
  by (rule nth_equalityI)
     (simp_all add: repositionTerrain_loop_length repositionTerrain_loop_nth)

lemma repositionTerrain_at_idem:
  "repositionTerrain_at pos (repositionTerrain_at pos ts) = repositionTerrain_at pos ts"
  by (simp add: repositionTerrain_at_def Let_def repositionTerrain_loop_idem
           del: repositionTerrain_loop.simps)

lemma tileSpacing_value: "tileSize * scaleFactor * 0.99 = 99"
  by (simp add: tileSize_def scaleFactor_def)

lemma offsets_value:
  "List.product [- 1, 0, 1] [- 1, 0, 1] =
   [(- 1, - 1), (- 1, 0), (- 1, 1), (0, - 1), (0, 0), (0, 1), (1, - 1), (1, 0), (1, 1 :: int)]"
  by simp

lemma repositionTerrain_at_nth:
  assumes "k < length ts" "k < 9"
  shows "tile_position (repositionTerrain_at pos ts ! k) =
     vec (Math_round (vx pos / 99) * 99 + (real (k div 3) - 1) * 99) 0
         (Math_round (vz pos / 99) * 99 + (real (k mod 3) - 1) * 99)"
proof -
  have "k = 0 \<or> k = 1 \<or> k = 2 \<or> k = 3 \<or> k = 4 \<or> k = 5 \<or> k = 6 \<or> k = 7 \<or> k = 8"
    using assms(2) by arith
  then show ?thesis
    using assms(1)
    unfolding repositionTerrain_at_def Let_def tileSpacing_value offsets_value
    by (elim disjE) (simp_all add: repositionTerrain_loop_nth del: repositionTerrain_loop.simps)
qed

lemma final_repositionTerrain:
  "final_state (repositionTerrain s) =
     (case model s of None \<Rightarrow> s
      | Some m \<Rightarrow> s\<lparr>terrainTiles := repositionTerrain_at (position m) (terrainTiles s)\<rparr>)"
  by (simp add: repositionTerrain_def split: option.splits)

lemma throws_repositionTerrain: "throws (repositionTerrain s) = (model s = None)"
  by (simp add: repositionTerrain_def split: option.splits)

lemma model_final_repositionTerrain [simp]: "model (final_state (repositionTerrain s)) = model s"
  by (simp add: final_repositionTerrain split: option.splits)

lemma currentMovement_final_repositionTerrain [simp]:
  "currentMovement (final_state (repositionTerrain s)) = currentMovement s"
  by (simp add: final_repositionTerrain split: option.splits)

text \<open>
  C8. Recentering is idempotent: a second call in a row leaves every tile where the first
  put it. The number of tiles never changes, and slot k of the 3x3 window (k < 9) is
  placed at the rounded grid cell of the actor plus the offset (k div 3 - 1, k mod 3 - 1)
  times the spacing 99, whatever the tile positions were before.
\<close>

theorem repositionTerrain_idempotent:
  "bind_result (repositionTerrain s) repositionTerrain = repositionTerrain s \<and>
   repositionTerrain_at pos (repositionTerrain_at pos ts) = repositionTerrain_at pos ts \<and>
   length (repositionTerrain_at pos ts) = length ts \<and>
   (\<forall>k. k < length ts \<and> k < 9 \<longrightarrow>
      tile_position (repositionTerrain_at pos ts ! k) =
        vec (Math_round (vx pos / 99) * 99 + (real (k div 3) - 1) * 99) 0
            (Math_round (vz pos / 99) * 99 + (real (k mod 3) - 1) * 99))"
proof -
  have "bind_result (repositionTerrain s) repositionTerrain = repositionTerrain s"
    by (cases "model s") (simp_all add: repositionTerrain_def bind_result_def repositionTerrain_at_idem)
  moreover have "length (repositionTerrain_at pos ts) = length ts"
    by (simp add: repositionTerrain_at_def Let_def repositionTerrain_loop_length
             del: repositionTerrain_loop.simps)
  ultimately show ?thesis
    using repositionTerrain_at_idem repositionTerrain_at_nth by blast
qed

theorem repositionTerrain_idempotent_witness:
  "(7 :: nat) < length (terrainTiles (robot_ready_tiled flat_three)) \<and> (7 :: nat) < 9 \<and>
   tile_position (repositionTerrain_at (vec 120 0 (- 60)) (terrainTiles (robot_ready_tiled flat_three)) ! 7)
     = vec 198 0 (- 99)"
  using repositionTerrain_idempotent
    [of "robot_ready_tiled flat_three" "vec 120 0 (- 60)" "terrainTiles (robot_ready_tiled flat_three)"]
  by (simp add: robot_tiles Math_round_def vec_def)

subsection \<open>Ray queries against the tiles\<close>

lemma collectHits_concat: "collectHits f ts acc = acc @ concat (map f ts)"
  by (induction ts arbitrary: acc) (simp_all add: Let_def)

lemma hd_sort_key_least:
  assumes "xs \<noteq> []"
  shows "hd (sort_key f xs) \<in> set xs" and "\<forall>y \<in> set xs. f (hd (sort_key f xs)) \<le> f y"
proof -
  obtain z zs where zs: "sort_key f xs = z # zs"
    using assms by (cases "sort_key f xs") (auto dest: arg_cong[where f=length])
  have "set (sort_key f xs) = set xs" by simp
  with zs show "hd (sort_key f xs) \<in> set xs" by auto
  have "sorted (map f (sort_key f xs))" by (rule sorted_sort_key)
  with zs have "\<forall>y \<in> set zs. f z \<le> f y" by simp
  moreover have "set xs = insert z (set zs)"
    using zs \<open>set (sort_key f xs) = set xs\<close> by auto
  ultimately show "\<forall>y \<in> set xs. f (hd (sort_key f xs)) \<le> f y"
    using zs by auto
qed

lemma groundHeight_closest:
  assumes "intersections \<noteq> []"
  shows "\<exists>h \<in> set intersections. groundHeight intersections = vy (point h)
           \<and> (\<forall>h' \<in> set intersections. distance h \<le> distance h')"
  using hd_sort_key_least[OF assms, of distance]
  by (auto simp: groundHeight_def assms)

lemma groundHeight_Nil [simp]: "groundHeight [] = 0"
  by (simp add: groundHeight_def)

lemma updateRobotMovement_tiled_moving:
  assumes "model s = Some m" "terrainTiles s \<noteq> []" "0 < vlength (cameraRelativeDirection s)"
  shows "updateRobotMovement_tiled lib s =
     (let dir = normalize (cameraRelativeDirection s);
          newPos = vadd (position m)
            (multiplyScalar dir (if key_shift (keys s) then moveSpeed * 2 else moveSpeed))
      in bind_result
           (locomotion (s\<lparr>model := Some (m\<lparr>position :=
                newPos\<lparr>vy := groundHeight (concat (map (intersectObject lib
                                  (downRay (vx newPos) 20 (vz newPos))) (terrainTiles s)))\<rparr>,
              orientation := slerp lib (orientation m)
                (setFromUnitVectors lib (vec 0 0 1) (normalize dir)) 0.2\<rparr>)\<rparr>))
           repositionTerrain)"
  using assms
  by (simp add: updateRobotMovement_tiled_def Let_def collectHits_concat)

lemma tiled_tick_moving:
  assumes "model s = Some m" "terrainTiles s \<noteq> []" "0 < vlength (cameraRelativeDirection s)"
  shows "\<exists>m'. model (final_state (updateRobotMovement_tiled lib s)) = Some m'
           \<and> position m' =
               (let newPos = vadd (position m)
                      (multiplyScalar (normalize (cameraRelativeDirection s))
                         (if key_shift (keys s) then moveSpeed * 2 else moveSpeed))
                in newPos\<lparr>vy := groundHeight (concat (map (intersectObject lib
                                  (downRay (vx newPos) 20 (vz newPos))) (terrainTiles s)))\<rparr>)"
    and "currentMovement (final_state (updateRobotMovement_tiled lib s)) =
           (if key_shift (keys s) then ''Running'' else ''Walking'')"
proof -
  note u = updateRobotMovement_tiled_moving[OF assms, of lib]
  show "\<exists>m'. model (final_state (updateRobotMovement_tiled lib s)) = Some m'
           \<and> position m' =
               (let newPos = vadd (position m)
                      (multiplyScalar (normalize (cameraRelativeDirection s))
                         (if key_shift (keys s) then moveSpeed * 2 else moveSpeed))
                in newPos\<lparr>vy := groundHeight (concat (map (intersectObject lib
                                  (downRay (vx newPos) 20 (vz newPos))) (terrainTiles s)))\<rparr>)"
    unfolding u Let_def by (simp add: final_bind)
  show "currentMovement (final_state (updateRobotMovement_tiled lib s)) =
           (if key_shift (keys s) then ''Running'' else ''Walking'')"
    unfolding u Let_def by (simp add: final_bind currentMovement_final_locomotion)
qed

text \<open>
  C2. Every downward surface query should take the closest hit among the hits of all
  tiles. The query of the movement step does (\<open>groundHeight_closest\<close>); the query that
  keeps the camera above the ground and the query that places the robot read the first
  hit in tile order instead. Over the stepped geometry, above the seam at x = 49.7 the
  camera query finds the ground at height 0 and leaves the camera at height 5, while
  the closest surface is 4 high; with tiles twice as wide the robot is placed at height
  0 at the origin, under a surface 4 high.
\<close>

theorem first_hit_is_not_closest:
  "cameraGround (stepped_three 50) (terrainTiles (robot_ready_tiled (stepped_three 50))) (vec 49.7 5 0)
     = vec 49.7 5 0
   \<and> groundHeight (collectHits (intersectObject (stepped_three 50) (downRay 49.7 15 0))
          (terrainTiles (robot_ready_tiled (stepped_three 50))) []) = 4
   \<and> map_option position (model (final_state (spawn (stepped_three 100) (robot_ready_tiled (stepped_three 100)))))
     = Some (vec 0 0 0)
   \<and> groundHeight (collectHits (intersectObject (stepped_three 100) (downRay 0 20 0))
          (terrainTiles (robot_ready_tiled (stepped_three 100))) []) = 4"
proof -
  have a: "cameraGround (stepped_three 50) (terrainTiles (robot_ready_tiled (stepped_three 50))) (vec 49.7 5 0)
     = vec 49.7 5 0"
    by (simp add: robot_tiles cameraGround_def stepped_three_def flat_three_def downRay_def vec_def Let_def)
  have b: "groundHeight (collectHits (intersectObject (stepped_three 50) (downRay 49.7 15 0))
          (terrainTiles (robot_ready_tiled (stepped_three 50))) []) = 4"
    by (simp add: robot_tiles groundHeight_def stepped_three_def flat_three_def downRay_def vec_def Let_def)
  have c: "map_option position (model (final_state (spawn (stepped_three 100) (robot_ready_tiled (stepped_three 100)))))
     = Some (vec 0 0 0)"
    by (simp add: robot_ready_tiled_eq spawn_def stepped_three_def flat_three_def vec_def Let_def)
  have d: "groundHeight (collectHits (intersectObject (stepped_three 100) (downRay 0 20 0))
          (terrainTiles (robot_ready_tiled (stepped_three 100))) []) = 4"
    by (simp add: robot_tiles groundHeight_def stepped_three_def flat_three_def downRay_def vec_def Let_def)
  from a b c d show ?thesis by blast
qed

subsection \<open>Key combinations and directions\<close>

lemma forwardKeys_simps [simp]:
  "key_w (forwardKeys b)" "\<not> key_a (forwardKeys b)" "\<not> key_s (forwardKeys b)"
  "\<not> key_d (forwardKeys b)" "key_shift (forwardKeys b) = b"
  by (simp_all add: forwardKeys_def)

lemma forward_direction:
  "moveDirection_closed (forwardKeys b) = vec 0 0 (- 1)"
  "vlength (vec 0 0 (- 1)) = 1"
  "normalize (vec 0 0 (- 1)) = vec 0 0 (- 1)"
  by (simp_all add: moveDirection_closed_def forwardKeys_def vec_def Let_def vlength_def
        normalize_def multiplyScalar_def)

lemma level_camera_forward:
  assumes "camera_direction s = vec 0 0 (- 1)" "keys s = forwardKeys b"
  shows "cameraRelativeDirection s = vec 0 0 (- 1)"
    and "vlength (cameraRelativeDirection s) = 1"
    and "normalize (cameraRelativeDirection s) = vec 0 0 (- 1)"
proof -
  show d: "cameraRelativeDirection s = vec 0 0 (- 1)"
    using assms
    by (simp add: cameraRelativeDirection_def direction_tiled_def Let_def vec_def normalize_def
          vlength_def multiplyScalar_def crossVectors_def vadd_def vsub_def)
  show "vlength (cameraRelativeDirection s) = 1"
    unfolding d by (simp add: vlength_def vec_def)
  show "normalize (cameraRelativeDirection s) = vec 0 0 (- 1)"
    unfolding d by (simp add: normalize_def vlength_def vec_def multiplyScalar_def)
qed

lemma moveDirection_closed_cancel:
  "noNetDirection k \<Longrightarrow> moveDirection_closed k = vec 0 0 0"
  by (auto simp: noNetDirection_def moveDirection_closed_def vec_def Let_def)

lemma direction_tiled_cancel:
  "noNetDirection k \<Longrightarrow> direction_tiled k f r = vec 0 0 0"
  by (auto simp: noNetDirection_def direction_tiled_def vec_def vadd_def vsub_def Let_def)

lemma cameraRelativeDirection_cancel:
  "noNetDirection (keys s) \<Longrightarrow> cameraRelativeDirection s = vec 0 0 0"
  by (simp add: cameraRelativeDirection_def Let_def direction_tiled_cancel)

lemma opposing_noNet [simp]: "noNetDirection (opposingKeys b)" "noNetDirection (noKeys b)"
  by (simp_all add: noNetDirection_def opposingKeys_def noKeys_def)

lemma vy_normalize: "vy v = 0 \<Longrightarrow> vy (normalize v) = 0"
  by (simp add: normalize_def multiplyScalar_def Let_def)

lemma vy_moveDirection_closed [simp]: "vy (moveDirection_closed k) = 0"
  by (simp add: moveDirection_closed_def Let_def vec_def)

lemma vy_cameraRelativeDirection [simp]: "vy (cameraRelativeDirection s) = 0"
  by (simp add: cameraRelativeDirection_def direction_tiled_def Let_def vec_def vadd_def vsub_def
        normalize_def multiplyScalar_def crossVectors_def)

lemma horizontal_unit:
  assumes "vy d = 0" "vlength d = 1" "0 \<le> k"
  shows "sqrt (vx d * k * (vx d * k) + vz d * k * (vz d * k)) = k"
proof -
  have "vx d * vx d + vz d * vz d = 1"
    using assms(1,2) by (simp add: vlength_def)
  then have "vx d * k * (vx d * k) + vz d * k * (vz d * k) = k\<^sup>2"
    by (simp add: power2_eq_square algebra_simps) (metis distrib_left mult.right_neutral)
  then show ?thesis using assms(3) by simp
qed

lemma horizontalDistance_along_z:
  "vx q = vx p \<Longrightarrow> horizontalDistance p q = \<bar>vz q - vz p\<bar>"
  by (simp add: horizontalDistance_def)

text \<open>
  C7. In the tiled variant a downward ray that hits no tile yields the height 0: the
  placement of the robot puts it at (0, 0, 0), and the movement step sets the new y to 0
  and raises no error of its own (the step throws exactly when the crossfade of the
  locomotion state does).
\<close>

theorem ray_miss_falls_back_to_zero:
  "(model s = Some m \<and>
    (\<forall>t \<in> set (terrainTiles s). intersectObject lib (downRay 0 20 0) t = []) \<longrightarrow>
      spawn lib s = Inr (s\<lparr>model := Some (m\<lparr>position := vec 0 0 0\<rparr>)\<rparr>))
   \<and> (model s = Some m \<and> terrainTiles s \<noteq> [] \<and> 0 < vlength (cameraRelativeDirection s) \<and>
        newPos = vadd (position m) (multiplyScalar (normalize (cameraRelativeDirection s))
                   (if key_shift (keys s) then moveSpeed * 2 else moveSpeed)) \<and>
        (\<forall>t \<in> set (terrainTiles s).
            intersectObject lib (downRay (vx newPos) 20 (vz newPos)) t = []) \<longrightarrow>
      (\<exists>m'. model (final_state (updateRobotMovement_tiled lib s)) = Some m' \<and>
            position m' = newPos\<lparr>vy := 0\<rparr>) \<and>
      throws (updateRobotMovement_tiled lib s) = throws (locomotion s))"
proof (intro conjI impI)
  assume h: "model s = Some m \<and>
    (\<forall>t \<in> set (terrainTiles s). intersectObject lib (downRay 0 20 0) t = [])"
  then have "concat (map (intersectObject lib (downRay 0 20 0)) (terrainTiles s)) = []"
    by simp
  then show "spawn lib s = Inr (s\<lparr>model := Some (m\<lparr>position := vec 0 0 0\<rparr>)\<rparr>)"
    using h by (simp add: spawn_def downRay_def Let_def)
next
  assume h: "model s = Some m \<and> terrainTiles s \<noteq> [] \<and> 0 < vlength (cameraRelativeDirection s) \<and>
        newPos = vadd (position m) (multiplyScalar (normalize (cameraRelativeDirection s))
                   (if key_shift (keys s) then moveSpeed * 2 else moveSpeed)) \<and>
        (\<forall>t \<in> set (terrainTiles s).
            intersectObject lib (downRay (vx newPos) 20 (vz newPos)) t = [])"
  then have miss: "\<forall>t \<in> set (terrainTiles s).
            intersectObject lib (downRay (vx newPos) 20 (vz newPos)) t = []"
    by blast
  then have e: "concat (map (intersectObject lib (downRay (vx newPos) 20 (vz newPos))) (terrainTiles s)) = []"
    by simp
  from h have np: "vadd (position m) (multiplyScalar (normalize (cameraRelativeDirection s))
                   (if key_shift (keys s) then moveSpeed * 2 else moveSpeed)) = newPos"
    by simp
  from h have pre: "model s = Some m" "terrainTiles s \<noteq> []" "0 < vlength (cameraRelativeDirection s)"
    by simp_all
  from tiled_tick_moving(1)[OF pre, of lib]
  show "\<exists>m'. model (final_state (updateRobotMovement_tiled lib s)) = Some m' \<and>
            position m' = newPos\<lparr>vy := 0\<rparr>"
    unfolding np Let_def e by simp
  show "throws (updateRobotMovement_tiled lib s) = throws (locomotion s)"
    unfolding updateRobotMovement_tiled_moving[OF pre] Let_def
    by (simp add: throws_repositionTerrain throws_locomotion)
qed

text \<open>The robot walking forward over tiles that no ray hits.\<close>

theorem ray_miss_falls_back_to_zero_witness:
  "model ((robot_ready_tiled flat_three)\<lparr>keys := forwardKeys False\<rparr>)
     = Some \<lparr>position = vec 0 0 0, orientation = \<lparr>qx = 0, qy = 0, qz = 0, qw = 1\<rparr>\<rparr>
   \<and> terrainTiles ((robot_ready_tiled flat_three)\<lparr>keys := forwardKeys False\<rparr>) \<noteq> []
   \<and> 0 < vlength (cameraRelativeDirection ((robot_ready_tiled flat_three)\<lparr>keys := forwardKeys False\<rparr>))
   \<and> list_all (\<lambda>t. intersectObject flat_three (downRay 0 20 (- 0.1)) t = [])
         (terrainTiles ((robot_ready_tiled flat_three)\<lparr>keys := forwardKeys False\<rparr>))
   \<and> (\<exists>m'. model (final_state (updateRobotMovement_tiled flat_three
                ((robot_ready_tiled flat_three)\<lparr>keys := forwardKeys False\<rparr>))) = Some m' \<and>
            position m' = vec 0 0 (- 0.1))
   \<and> spawn flat_three ((robot_ready_tiled flat_three)\<lparr>keys := forwardKeys False\<rparr>)
       = Inr ((robot_ready_tiled flat_three)\<lparr>keys := forwardKeys False\<rparr>)"
proof -
  let ?s = "(robot_ready_tiled flat_three)\<lparr>keys := forwardKeys False\<rparr>"
  let ?m = "\<lparr>position = vec 0 0 0, orientation = \<lparr>qx = 0, qy = 0, qz = 0, qw = 1\<rparr>\<rparr>"
  have cam: "camera_direction ?s = vec 0 0 (- 1)" and k: "keys ?s = forwardKeys False"
    by (simp_all add: robot_ready_tiled_eq flat_three_def)
  note dir = level_camera_forward[OF cam k]
  have m: "model ?s = Some ?m" by (simp add: robot_ready_tiled_eq)
  have t: "terrainTiles ?s \<noteq> []" by (simp add: robot_ready_tiled_eq)
  have np: "vadd (position ?m) (multiplyScalar (normalize (cameraRelativeDirection ?s))
                   (if key_shift (keys ?s) then moveSpeed * 2 else moveSpeed)) = vec 0 0 (- 0.1)"
    unfolding dir(3) by (simp add: vadd_def multiplyScalar_def vec_def moveSpeed_def)
  have miss: "\<forall>t \<in> set (terrainTiles ?s). \<forall>rc. intersectObject flat_three rc t = []"
    by (simp add: flat_three_def)
  have upd: "?s\<lparr>model := Some (?m\<lparr>position := vec 0 0 0\<rparr>)\<rparr> = ?s"
    by (simp add: robot_ready_tiled_eq)
  show ?thesis
    using ray_miss_falls_back_to_zero[of ?s ?m flat_three "vec 0 0 (- 0.1)"] m t dir(2) np miss upd
    by (simp add: vec_def list_all_iff)
qed

subsection \<open>Ticks without net direction\<close>

lemma updateRobotMovement_closed_still:
  "noNetDirection (keys s) \<Longrightarrow>
   updateRobotMovement_closed s = (if model s = None then Inr s else standStill s)"
  by (simp add: updateRobotMovement_closed_def moveDirection_closed_cancel split: option.splits)

lemma updateRobotMovement_tiled_still:
  "noNetDirection (keys s) \<Longrightarrow>
   updateRobotMovement_tiled lib s =
     (if model s = None \<or> terrainTiles s = [] then Inr s else standStill s)"
  by (simp add: updateRobotMovement_tiled_def cameraRelativeDirection_cancel split: option.splits)

lemma closed_opposing:
  "updateRobotMovement_closed (s\<lparr>keys := opposingKeys b\<rparr>) =
   map_result (\<lambda>t. t\<lparr>keys := opposingKeys b\<rparr>) (updateRobotMovement_closed (s\<lparr>keys := noKeys b\<rparr>))"
  by (rule result_eqI)
     (simp_all add: updateRobotMovement_closed_still throws_standStill final_standStill)

lemma tiled_opposing:
  "updateRobotMovement_tiled lib (s\<lparr>keys := opposingKeys b\<rparr>) =
   map_result (\<lambda>t. t\<lparr>keys := opposingKeys b\<rparr>) (updateRobotMovement_tiled lib (s\<lparr>keys := noKeys b\<rparr>))"
  by (rule result_eqI)
     (simp_all add: updateRobotMovement_tiled_still throws_standStill final_standStill)

text \<open>
  C3, as the code has it. A tick with forward and back held (and no other directional
  key) has the outcome of the tick with no directional key held, up to the held keys
  themselves; it leaves position and orientation of the actor as they are and raises no
  error of its own. The locomotion state becomes Idle when the tick is active: the actor
  is loaded and, in the tiled variant, at least one terrain tile is. Before that the
  tick returns at once and leaves the whole state untouched.
\<close>

theorem opposing_keys_cancel:
  "updateRobotMovement_closed (s\<lparr>keys := opposingKeys b\<rparr>) =
     map_result (\<lambda>u. u\<lparr>keys := opposingKeys b\<rparr>) (updateRobotMovement_closed (s\<lparr>keys := noKeys b\<rparr>))
   \<and> model (final_state (updateRobotMovement_closed (s\<lparr>keys := opposingKeys b\<rparr>))) = model s
   \<and> (model s \<noteq> None \<longrightarrow>
        currentMovement (final_state (updateRobotMovement_closed (s\<lparr>keys := opposingKeys b\<rparr>))) = ''Idle'')
   \<and> updateRobotMovement_tiled lib (t\<lparr>keys := opposingKeys b\<rparr>) =
     map_result (\<lambda>u. u\<lparr>keys := opposingKeys b\<rparr>) (updateRobotMovement_tiled lib (t\<lparr>keys := noKeys b\<rparr>))
   \<and> model (final_state (updateRobotMovement_tiled lib (t\<lparr>keys := opposingKeys b\<rparr>))) = model t
   \<and> (model t \<noteq> None \<and> terrainTiles t \<noteq> [] \<longrightarrow>
        currentMovement (final_state (updateRobotMovement_tiled lib (t\<lparr>keys := opposingKeys b\<rparr>))) = ''Idle'')
   \<and> (model t = None \<or> terrainTiles t = [] \<longrightarrow>
        updateRobotMovement_tiled lib (t\<lparr>keys := opposingKeys b\<rparr>) = Inr (t\<lparr>keys := opposingKeys b\<rparr>))"
proof -
  have "model (final_state (updateRobotMovement_closed (s\<lparr>keys := opposingKeys b\<rparr>))) = model s"
    by (simp add: updateRobotMovement_closed_still final_standStill)
  moreover have "model s \<noteq> None \<longrightarrow>
        currentMovement (final_state (updateRobotMovement_closed (s\<lparr>keys := opposingKeys b\<rparr>))) = ''Idle''"
    by (simp add: updateRobotMovement_closed_still final_standStill)
  moreover have "model (final_state (updateRobotMovement_tiled lib (t\<lparr>keys := opposingKeys b\<rparr>))) = model t"
    by (simp add: updateRobotMovement_tiled_still final_standStill)
  moreover have "model t \<noteq> None \<and> terrainTiles t \<noteq> [] \<longrightarrow>
        currentMovement (final_state (updateRobotMovement_tiled lib (t\<lparr>keys := opposingKeys b\<rparr>))) = ''Idle''"
    by (simp add: updateRobotMovement_tiled_still final_standStill)
  moreover have "model t = None \<or> terrainTiles t = [] \<longrightarrow>
        updateRobotMovement_tiled lib (t\<lparr>keys := opposingKeys b\<rparr>) = Inr (t\<lparr>keys := opposingKeys b\<rparr>)"
    by (simp add: updateRobotMovement_tiled_still)
  ultimately show ?thesis
    using closed_opposing tiled_opposing by blast
qed

text \<open>
  With the robot loaded, the terrain asset missing and Dance chosen in the panel, the
  tick with forward and back held leaves the locomotion state at Dance.
\<close>

theorem opposing_keys_without_tiles:
  "model (dancing_without_tiles\<lparr>keys := opposingKeys False\<rparr>) \<noteq> None \<and>
   currentMovement (final_state (updateRobotMovement_tiled flat_three
      (dancing_without_tiles\<lparr>keys := opposingKeys False\<rparr>))) \<noteq> ''Idle''"
  by (simp add: updateRobotMovement_tiled_still dancing_without_tiles_eq)

text \<open>Both variants with the robot loaded and running, and the dormant tiled state.\<close>

theorem opposing_keys_cancel_witness:
  "model (robot_ready_closed\<lparr>currentMovement := ''Running''\<rparr>) \<noteq> None
   \<and> currentMovement (final_state (updateRobotMovement_closed
        (robot_ready_closed\<lparr>currentMovement := ''Running'', keys := opposingKeys True\<rparr>))) = ''Idle''
   \<and> model ((robot_ready_tiled flat_three)\<lparr>currentMovement := ''Running''\<rparr>) \<noteq> None
   \<and> terrainTiles ((robot_ready_tiled flat_three)\<lparr>currentMovement := ''Running''\<rparr>) \<noteq> []
   \<and> currentMovement (final_state (updateRobotMovement_tiled flat_three
        ((robot_ready_tiled flat_three)\<lparr>currentMovement := ''Running'', keys := opposingKeys True\<rparr>))) = ''Idle''
   \<and> terrainTiles dancing_without_tiles = []
   \<and> updateRobotMovement_tiled flat_three (dancing_without_tiles\<lparr>keys := opposingKeys True\<rparr>)
        = Inr (dancing_without_tiles\<lparr>keys := opposingKeys True\<rparr>)"
proof -
  have h: "model (robot_ready_closed\<lparr>currentMovement := ''Running''\<rparr>) \<noteq> None"
    "model ((robot_ready_tiled flat_three)\<lparr>currentMovement := ''Running''\<rparr>) \<noteq> None"
    "terrainTiles ((robot_ready_tiled flat_three)\<lparr>currentMovement := ''Running''\<rparr>) \<noteq> []"
    "terrainTiles dancing_without_tiles = []"
    by (simp_all add: robot_ready_closed_eq robot_ready_tiled_eq dancing_without_tiles_eq)
  show ?thesis
    using h
      opposing_keys_cancel[where s = "robot_ready_closed\<lparr>currentMovement := ''Running''\<rparr>"
        and b = True and lib = flat_three
        and t = "(robot_ready_tiled flat_three)\<lparr>currentMovement := ''Running''\<rparr>"]
      opposing_keys_cancel[where s = robot_ready_closed and b = True and lib = flat_three
        and t = dancing_without_tiles]
    by blast
qed

subsection \<open>Ticks that move the actor\<close>

lemma closed_tick_moving:
  assumes "model s = Some m" "0 < vlength (moveDirection_closed (keys s))"
  shows "\<exists>m'. model (final_state (updateRobotMovement_closed s)) = Some m'
           \<and> vx (position m') = vx (position m) + vx (normalize (moveDirection_closed (keys s))) * (if key_shift (keys s) then moveSpeed * 2 else moveSpeed)
           \<and> vz (position m') = vz (position m) + vz (normalize (moveDirection_closed (keys s))) * (if key_shift (keys s) then moveSpeed * 2 else moveSpeed)
           \<and> vy (position m') = getTerrainHeight (vx (position m')) (vz (position m'))"
    and "currentMovement (final_state (updateRobotMovement_closed s)) = (if key_shift (keys s) then ''Running'' else ''Walking'')"
    and "keys (final_state (updateRobotMovement_closed s)) = keys s"
    and "actions (final_state (updateRobotMovement_closed s)) = actions s"
    and "mixer (final_state (updateRobotMovement_closed s)) = mixer s"
    and "activeAction s \<noteq> None \<Longrightarrow> actions s (if key_shift (keys s) then ''Running'' else ''Walking'') \<noteq> None
         \<Longrightarrow> \<not> throws (updateRobotMovement_closed s) \<and> activeAction (final_state (updateRobotMovement_closed s)) \<noteq> None"
  using assms
  by (auto simp: updateRobotMovement_closed_def Let_def final_locomotion throws_locomotion)

lemma closed_tick_distance:
  assumes "model s = Some m" "0 < vlength (moveDirection_closed (keys s))"
  shows "\<exists>m'. model (final_state (updateRobotMovement_closed s)) = Some m' \<and>
            horizontalDistance (position m) (position m') =
              (if key_shift (keys s) then 2 * moveSpeed else moveSpeed)"
proof -
  let ?d = "normalize (moveDirection_closed (keys s))"
  let ?k = "if key_shift (keys s) then moveSpeed * 2 else moveSpeed"
  from closed_tick_moving(1)[OF assms] obtain m' where
    m': "model (final_state (updateRobotMovement_closed s)) = Some m'"
    "vx (position m') = vx (position m) + vx ?d * ?k"
    "vz (position m') = vz (position m) + vz ?d * ?k"
    by blast
  have "sqrt (vx ?d * ?k * (vx ?d * ?k) + vz ?d * ?k * (vz ?d * ?k)) = ?k"
    by (rule horizontal_unit) (simp_all add: vy_normalize vlength_normalize assms(2) moveSpeed_def)
  then have "horizontalDistance (position m) (position m') = ?k"
    by (simp add: horizontalDistance_def m'(2,3))
  with m'(1) show ?thesis by (simp add: mult.commute)
qed

lemma tiled_tick_distance:
  assumes "model s = Some m" "terrainTiles s \<noteq> []" "0 < vlength (cameraRelativeDirection s)"
  shows "\<exists>m'. model (final_state (updateRobotMovement_tiled lib s)) = Some m' \<and>
            horizontalDistance (position m) (position m') =
              (if key_shift (keys s) then 2 * moveSpeed else moveSpeed)"
proof -
  let ?d = "normalize (cameraRelativeDirection s)"
  let ?k = "if key_shift (keys s) then moveSpeed * 2 else moveSpeed"
  from tiled_tick_moving(1)[OF assms, of lib] obtain m' where
    m': "model (final_state (updateRobotMovement_tiled lib s)) = Some m'"
    "vx (position m') = vx (position m) + vx ?d * ?k"
    "vz (position m') = vz (position m) + vz ?d * ?k"
    by (auto simp: Let_def vadd_def multiplyScalar_def)
  have "sqrt (vx ?d * ?k * (vx ?d * ?k) + vz ?d * ?k * (vz ?d * ?k)) = ?k"
    by (rule horizontal_unit) (simp_all add: vy_normalize vlength_normalize assms(3) moveSpeed_def)
  then have "horizontalDistance (position m) (position m') = ?k"
    by (simp add: horizontalDistance_def m'(2,3))
  with m'(1) show ?thesis by (simp add: mult.commute)
qed

lemma ticks_closed_displacement:
  assumes "model s = Some m" "0 < vlength (moveDirection_closed (keys s))"
    "activeAction s \<noteq> None"
    "actions s (if key_shift (keys s) then ''Running'' else ''Walking'') \<noteq> None"
  shows "\<exists>s' m'. ticks_closed n s = Inr s' \<and> model s' = Some m'
           \<and> vx (position m') = vx (position m) + real n * (vx (normalize (moveDirection_closed (keys s))) * (if key_shift (keys s) then moveSpeed * 2 else moveSpeed))
           \<and> vz (position m') = vz (position m) + real n * (vz (normalize (moveDirection_closed (keys s))) * (if key_shift (keys s) then moveSpeed * 2 else moveSpeed))
           \<and> keys s' = keys s \<and> mixer s' = mixer s
           \<and> (0 < n \<longrightarrow> currentMovement s' = (if key_shift (keys s) then ''Running'' else ''Walking''))"
  using assms
proof (induction n arbitrary: s m)
  case 0
  then show ?case by simp
next
  case (Suc n)
  let ?r = "updateRobotMovement_closed s"
  let ?s1 = "final_state ?r"
  from closed_tick_moving(1)[OF Suc.prems(1,2)] obtain m1 where
    m1: "model ?s1 = Some m1"
    "vx (position m1) = vx (position m) + vx (normalize (moveDirection_closed (keys s))) * (if key_shift (keys s) then moveSpeed * 2 else moveSpeed)"
    "vz (position m1) = vz (position m) + vz (normalize (moveDirection_closed (keys s))) * (if key_shift (keys s) then moveSpeed * 2 else moveSpeed)"
    by blast
  note k = closed_tick_moving(3)[OF Suc.prems(1,2)]
  note a = closed_tick_moving(4)[OF Suc.prems(1,2)]
  note mx = closed_tick_moving(5)[OF Suc.prems(1,2)]
  note cm = closed_tick_moving(2)[OF Suc.prems(1,2)]
  from closed_tick_moving(6)[OF Suc.prems] have nt: "\<not> throws ?r" and aa: "activeAction ?s1 \<noteq> None"
    by simp_all
  have r: "?r = Inr ?s1" using nt by (rule not_throws_Inr)
  have "\<exists>s' m'. ticks_closed n ?s1 = Inr s' \<and> model s' = Some m'
           \<and> vx (position m') = vx (position m1) + real n * (vx (normalize (moveDirection_closed (keys ?s1))) * (if key_shift (keys ?s1) then moveSpeed * 2 else moveSpeed))
           \<and> vz (position m') = vz (position m1) + real n * (vz (normalize (moveDirection_closed (keys ?s1))) * (if key_shift (keys ?s1) then moveSpeed * 2 else moveSpeed))
           \<and> keys s' = keys ?s1 \<and> mixer s' = mixer ?s1
           \<and> (0 < n \<longrightarrow> currentMovement s' = (if key_shift (keys ?s1) then ''Running'' else ''Walking''))"
    by (rule Suc.IH[OF m1(1)]) (use Suc.prems k a aa in simp_all)
  then obtain s' m' where s':
    "ticks_closed n ?s1 = Inr s'" "model s' = Some m'"
    "vx (position m') = vx (position m1) + real n * (vx (normalize (moveDirection_closed (keys s))) * (if key_shift (keys s) then moveSpeed * 2 else moveSpeed))"
    "vz (position m') = vz (position m1) + real n * (vz (normalize (moveDirection_closed (keys s))) * (if key_shift (keys s) then moveSpeed * 2 else moveSpeed))"
    "keys s' = keys s" "mixer s' = mixer s"
    "0 < n \<longrightarrow> currentMovement s' = (if key_shift (keys s) then ''Running'' else ''Walking'')"
    unfolding k mx by blast
  have cur: "currentMovement s' = (if key_shift (keys s) then ''Running'' else ''Walking'')"
  proof (cases n)
    case 0
    with s'(1) cm show ?thesis by simp
  next
    case (Suc j)
    with s'(7) show ?thesis by simp
  qed
  have run: "ticks_closed (Suc n) s = Inr s'"
    using s'(1) by (subst ticks_closed.simps, subst r) simp
  show ?case
    using run s'(2-6) m1(2,3) cur
    by (simp add: algebra_simps)
qed

lemma forward_ticks:
  assumes "model s = Some m" "activeAction s \<noteq> None"
    "actions s (if b then ''Running'' else ''Walking'') \<noteq> None"
  shows "\<exists>s' m'. ticks_closed n (s\<lparr>keys := forwardKeys b\<rparr>) = Inr s' \<and> model s' = Some m'
           \<and> vx (position m') = vx (position m)
           \<and> vz (position m') = vz (position m) - real n * (if b then moveSpeed * 2 else moveSpeed)
           \<and> (0 < n \<longrightarrow> currentMovement s' = (if b then ''Running'' else ''Walking''))"
proof -
  let ?s = "s\<lparr>keys := forwardKeys b\<rparr>"
  have 1: "model ?s = Some m" using assms(1) by simp
  have 2: "0 < vlength (moveDirection_closed (keys ?s))"
    by (simp add: forward_direction)
  have 3: "activeAction ?s \<noteq> None" using assms(2) by simp
  have 4: "actions ?s (if key_shift (keys ?s) then ''Running'' else ''Walking'') \<noteq> None"
    using assms(3) by simp
  from ticks_closed_displacement[OF 1 2 3 4, of n]
  show ?thesis
    by (simp add: forward_direction) (auto simp: vec_def)
qed

text \<open>
  C5, as the code has it. In a tick that moves the actor, the horizontal distance covered
  is the base speed without the sprint modifier and twice the base speed with it, in
  both variants, and the locomotion state becomes Walking or Running accordingly. In
  the world-axis variant, n ticks of forward with sprint cover twice the distance of n
  ticks of forward without it. In the camera-relative variant the heading of every tick
  comes from the camera, which follows the actor, so there the doubling holds for each
  step and not for the distance covered over several frames.
\<close>

theorem sprint_doubles_speed:
  "(model s = Some m \<and> 0 < vlength (moveDirection_closed (keys s)) \<longrightarrow>
      (\<exists>m'. model (final_state (updateRobotMovement_closed s)) = Some m' \<and>
            horizontalDistance (position m) (position m') =
              (if key_shift (keys s) then 2 * moveSpeed else moveSpeed)) \<and>
      currentMovement (final_state (updateRobotMovement_closed s)) =
        (if key_shift (keys s) then ''Running'' else ''Walking''))
   \<and> (model t = Some q \<and> terrainTiles t \<noteq> [] \<and> 0 < vlength (cameraRelativeDirection t) \<longrightarrow>
      (\<exists>q'. model (final_state (updateRobotMovement_tiled lib t)) = Some q' \<and>
            horizontalDistance (position q) (position q') =
              (if key_shift (keys t) then 2 * moveSpeed else moveSpeed)) \<and>
      currentMovement (final_state (updateRobotMovement_tiled lib t)) =
        (if key_shift (keys t) then ''Running'' else ''Walking''))
   \<and> (model s = Some m \<and> activeAction s \<noteq> None \<and> actions s ''Walking'' \<noteq> None \<and>
       actions s ''Running'' \<noteq> None \<longrightarrow>
      (\<exists>a b ma mb.
          ticks_closed n (s\<lparr>keys := forwardKeys False\<rparr>) = Inr a \<and> model a = Some ma \<and>
          ticks_closed n (s\<lparr>keys := forwardKeys True\<rparr>) = Inr b \<and> model b = Some mb \<and>
          horizontalDistance (position m) (position ma) = real n * moveSpeed \<and>
          horizontalDistance (position m) (position mb) = 2 * (real n * moveSpeed) \<and>
          (0 < n \<longrightarrow> currentMovement a = ''Walking'' \<and> currentMovement b = ''Running'')))"
proof (intro conjI impI)
  assume h: "model s = Some m \<and> 0 < vlength (moveDirection_closed (keys s))"
  then show "\<exists>m'. model (final_state (updateRobotMovement_closed s)) = Some m' \<and>
            horizontalDistance (position m) (position m') =
              (if key_shift (keys s) then 2 * moveSpeed else moveSpeed)"
    using closed_tick_distance by blast
  from h show "currentMovement (final_state (updateRobotMovement_closed s)) =
        (if key_shift (keys s) then ''Running'' else ''Walking'')"
    using closed_tick_moving(2) by blast
next
  assume h: "model t = Some q \<and> terrainTiles t \<noteq> [] \<and> 0 < vlength (cameraRelativeDirection t)"
  then show "\<exists>q'. model (final_state (updateRobotMovement_tiled lib t)) = Some q' \<and>
            horizontalDistance (position q) (position q') =
              (if key_shift (keys t) then 2 * moveSpeed else moveSpeed)"
    using tiled_tick_distance by blast
  from h show "currentMovement (final_state (updateRobotMovement_tiled lib t)) =
        (if key_shift (keys t) then ''Running'' else ''Walking'')"
    using tiled_tick_moving(2) by blast
next
  assume h: "model s = Some m \<and> activeAction s \<noteq> None \<and> actions s ''Walking'' \<noteq> None \<and>
       actions s ''Running'' \<noteq> None"
  then have pre: "model s = Some m" "activeAction s \<noteq> None"
    "actions s (if False then ''Running'' else ''Walking'') \<noteq> None"
    "actions s (if True then ''Running'' else ''Walking'') \<noteq> None"
    by simp_all
  from forward_ticks[OF pre(1,2,3), of n] obtain a ma where
    a: "ticks_closed n (s\<lparr>keys := forwardKeys False\<rparr>) = Inr a" "model a = Some ma"
      "vx (position ma) = vx (position m)" "vz (position ma) = vz (position m) - real n * moveSpeed"
      "0 < n \<longrightarrow> currentMovement a = ''Walking''"
    by auto
  from forward_ticks[OF pre(1,2,4), of n] obtain b mb where
    b: "ticks_closed n (s\<lparr>keys := forwardKeys True\<rparr>) = Inr b" "model b = Some mb"
      "vx (position mb) = vx (position m)" "vz (position mb) = vz (position m) - real n * (moveSpeed * 2)"
      "0 < n \<longrightarrow> currentMovement b = ''Running''"
    by auto
  have da: "horizontalDistance (position m) (position ma) = real n * moveSpeed"
    using a(3,4) by (simp add: horizontalDistance_along_z moveSpeed_def)
  have db: "horizontalDistance (position m) (position mb) = 2 * (real n * moveSpeed)"
    using b(3,4) by (simp add: horizontalDistance_along_z moveSpeed_def)
  from a(1,2,5) b(1,2,5) da db
  show "\<exists>a b ma mb.
          ticks_closed n (s\<lparr>keys := forwardKeys False\<rparr>) = Inr a \<and> model a = Some ma \<and>
          ticks_closed n (s\<lparr>keys := forwardKeys True\<rparr>) = Inr b \<and> model b = Some mb \<and>
          horizontalDistance (position m) (position ma) = real n * moveSpeed \<and>
          horizontalDistance (position m) (position mb) = 2 * (real n * moveSpeed) \<and>
          (0 < n \<longrightarrow> currentMovement a = ''Walking'' \<and> currentMovement b = ''Running'')"
    by blast
qed

text \<open>One sprinting tick in each variant, and sixty ticks with and without sprint.\<close>

theorem sprint_doubles_speed_witness:
  "model (robot_ready_closed\<lparr>keys := forwardKeys True\<rparr>)
     = Some \<lparr>position = vec 0 0 0, orientation = 0\<rparr>
   \<and> 0 < vlength (moveDirection_closed (keys (robot_ready_closed\<lparr>keys := forwardKeys True\<rparr>)))
   \<and> model ((robot_ready_tiled flat_three)\<lparr>keys := forwardKeys True\<rparr>)
     = Some \<lparr>position = vec 0 0 0, orientation = \<lparr>qx = 0, qy = 0, qz = 0, qw = 1\<rparr>\<rparr>
   \<and> terrainTiles ((robot_ready_tiled flat_three)\<lparr>keys := forwardKeys True\<rparr>) \<noteq> []
   \<and> 0 < vlength (cameraRelativeDirection ((robot_ready_tiled flat_three)\<lparr>keys := forwardKeys True\<rparr>))
   \<and> activeAction (robot_ready_closed\<lparr>keys := forwardKeys True\<rparr>) \<noteq> None
   \<and> actions (robot_ready_closed\<lparr>keys := forwardKeys True\<rparr>) ''Walking'' \<noteq> None
   \<and> actions (robot_ready_closed\<lparr>keys := forwardKeys True\<rparr>) ''Running'' \<noteq> None
   \<and> currentMovement (final_state (updateRobotMovement_closed
         (robot_ready_closed\<lparr>keys := forwardKeys True\<rparr>))) = ''Running''
   \<and> currentMovement (final_state (updateRobotMovement_tiled flat_three
         ((robot_ready_tiled flat_three)\<lparr>keys := forwardKeys True\<rparr>))) = ''Running''
   \<and> (\<exists>m'. model (final_state (updateRobotMovement_closed
                (robot_ready_closed\<lparr>keys := forwardKeys True\<rparr>))) = Some m' \<and>
            horizontalDistance (vec 0 0 0) (position m') = 2 * moveSpeed)
   \<and> (\<exists>a b ma mb.
          ticks_closed 60 (robot_ready_closed\<lparr>keys := forwardKeys False\<rparr>) = Inr a \<and> model a = Some ma \<and>
          ticks_closed 60 (robot_ready_closed\<lparr>keys := forwardKeys True\<rparr>) = Inr b \<and> model b = Some mb \<and>
          horizontalDistance (vec 0 0 0) (position ma) = 6 \<and>
          horizontalDistance (vec 0 0 0) (position mb) = 12 \<and>
          currentMovement a = ''Walking'' \<and> currentMovement b = ''Running'')"
proof -
  let ?s = "robot_ready_closed\<lparr>keys := forwardKeys True\<rparr>"
  let ?t = "(robot_ready_tiled flat_three)\<lparr>keys := forwardKeys True\<rparr>"
  let ?m = "\<lparr>position = vec 0 0 0, orientation = 0 :: real\<rparr>"
  let ?q = "\<lparr>position = vec 0 0 0, orientation = \<lparr>qx = 0, qy = 0, qz = 0, qw = 1\<rparr>\<rparr>"
  have cam: "camera_direction ?t = vec 0 0 (- 1)" and kt: "keys ?t = forwardKeys True"
    by (simp_all add: robot_ready_tiled_eq flat_three_def)
  have h0: "0 < vlength (cameraRelativeDirection ?t)"
    using level_camera_forward(2)[OF cam kt] by simp
  have h: "model ?s = Some ?m" "0 < vlength (moveDirection_closed (keys ?s))"
    "model ?t = Some ?q" "terrainTiles ?t \<noteq> []"
    "activeAction ?s \<noteq> None" "actions ?s ''Walking'' \<noteq> None" "actions ?s ''Running'' \<noteq> None"
    "key_shift (keys ?s)" "key_shift (keys ?t)"
    by (simp_all add: robot_ready_closed_eq robot_ready_tiled_eq robot_actions forward_direction)
  have k: "?s\<lparr>keys := forwardKeys False\<rparr> = robot_ready_closed\<lparr>keys := forwardKeys False\<rparr>"
    "?s\<lparr>keys := forwardKeys True\<rparr> = ?s"
    by simp_all
  have p: "position ?m = vec 0 0 0" "position ?q = vec 0 0 0" "real 60 * moveSpeed = 6"
    "2 * (real 60 * moveSpeed) = 12" "(0 :: nat) < 60"
    by (simp_all add: moveSpeed_def)
  show ?thesis
    using sprint_doubles_speed[where s = ?s and m = ?m and t = ?t and q = ?q
        and lib = flat_three and n = 60] h h0
    unfolding k p
    by simp
qed

subsection \<open>Frames\<close>

lemma dispatchFinished_unarmed:
  "mixer s = None \<or> mixer s = Some [] \<Longrightarrow> dispatchFinished s = Inr s"
  by (auto simp: dispatchFinished_def)

lemma mixerUpdate_unarmed:
  "mixer s = None \<or> mixer s = Some [] \<Longrightarrow> mixerUpdate n s = Inr s"
  by (induction n) (simp_all add: dispatchFinished_unarmed)

lemma animate_closed_unarmed:
  "mixer s = None \<or> mixer s = Some [] \<Longrightarrow> animate_closed n s = updateRobotMovement_closed s"
  by (simp add: animate_closed_def mixerUpdate_unarmed)

lemma mixer_final_fadeToAction [simp]: "mixer (final_state (fadeToAction name d s)) = mixer s"
  by (simp add: final_fadeToAction)

lemma mixer_final_closed [simp]:
  "mixer (final_state (updateRobotMovement_closed s)) = mixer s"
  by (simp add: updateRobotMovement_closed_def Let_def final_locomotion final_standStill
        split: option.splits)

lemma frames_are_ticks:
  "mixer s = None \<or> mixer s = Some [] \<Longrightarrow>
   run step_closed (map Frame ns) s = ticks_closed (length ns) s"
proof (induction ns arbitrary: s)
  case Nil
  then show ?case by simp
next
  case (Cons n ns)
  show ?case
  proof (cases "updateRobotMovement_closed s")
    case (Inl e)
    with Cons.prems show ?thesis
      by (simp add: animate_closed_unarmed bind_result_def)
  next
    case (Inr s')
    then have "mixer s' = mixer s"
      using mixer_final_closed[of s] by simp
    with Cons.prems have "mixer s' = None \<or> mixer s' = Some []" by simp
    from Cons.IH[OF this] Inr Cons.prems show ?thesis
      by (simp add: animate_closed_unarmed)
  qed
qed

text \<open>
  C6. In the world-axis variant, an actor at x = 0, z = 0 that holds forward alone for 60
  ticks (60 frames, whatever the mixer reports) ends at x = 0 and z = -6, which is the
  base speed of 0.1 units per tick summed over the 60 ticks, in locomotion state
  Walking. The step is per tick; the frame time does not enter it.
\<close>

theorem forward_one_second:
  "model s = Some m \<and> vx (position m) = 0 \<and> vz (position m) = 0 \<and>
   keys s = forwardKeys False \<and> activeAction s \<noteq> None \<and> actions s ''Walking'' \<noteq> None \<and>
   mixer s = Some [] \<and> length ns = 60 \<longrightarrow>
     (\<exists>s' m'. ticks_closed 60 s = Inr s' \<and> run step_closed (map Frame ns) s = Inr s' \<and>
        model s' = Some m' \<and> vx (position m') = 0 \<and> vz (position m') = - (60 * moveSpeed) \<and>
        60 * moveSpeed = 6 \<and> currentMovement s' = ''Walking'')"
proof
  assume h: "model s = Some m \<and> vx (position m) = 0 \<and> vz (position m) = 0 \<and>
   keys s = forwardKeys False \<and> activeAction s \<noteq> None \<and> actions s ''Walking'' \<noteq> None \<and>
   mixer s = Some [] \<and> length ns = 60"
  then have pre: "model s = Some m" "activeAction s \<noteq> None"
    "actions s (if False then ''Running'' else ''Walking'') \<noteq> None"
    by simp_all
  from h have k: "s\<lparr>keys := forwardKeys False\<rparr> = s" by simp
  from forward_ticks[OF pre, of 60] obtain s' m' where
    t: "ticks_closed 60 s = Inr s'" "model s' = Some m'"
      "vx (position m') = vx (position m)" "vz (position m') = vz (position m) - 60 * moveSpeed"
      "currentMovement s' = ''Walking''"
    unfolding k by auto
  from h have "run step_closed (map Frame ns) s = ticks_closed 60 s"
    using frames_are_ticks[of s ns] by simp
  with t h show "\<exists>s' m'. ticks_closed 60 s = Inr s' \<and> run step_closed (map Frame ns) s = Inr s' \<and>
        model s' = Some m' \<and> vx (position m') = 0 \<and> vz (position m') = - (60 * moveSpeed) \<and>
        60 * moveSpeed = 6 \<and> currentMovement s' = ''Walking''"
    by (simp add: moveSpeed_def)
qed

text \<open>The freshly loaded robot holding forward for sixty frames.\<close>

theorem forward_one_second_witness:
  "model (robot_ready_closed\<lparr>keys := forwardKeys False\<rparr>)
     = Some \<lparr>position = vec 0 0 0, orientation = 0\<rparr>
   \<and> keys (robot_ready_closed\<lparr>keys := forwardKeys False\<rparr>) = forwardKeys False
   \<and> activeAction (robot_ready_closed\<lparr>keys := forwardKeys False\<rparr>) \<noteq> None
   \<and> actions (robot_ready_closed\<lparr>keys := forwardKeys False\<rparr>) ''Walking'' \<noteq> None
   \<and> mixer (robot_ready_closed\<lparr>keys := forwardKeys False\<rparr>) = Some []
   \<and> length (replicate 60 (0 :: nat)) = 60
   \<and> (\<exists>s' m'. run step_closed (map Frame (replicate 60 0))
                  (robot_ready_closed\<lparr>keys := forwardKeys False\<rparr>) = Inr s' \<and>
        model s' = Some m' \<and> vx (position m') = 0 \<and> vz (position m') = - 6 \<and>
        currentMovement s' = ''Walking'')"
proof -
  let ?s = "robot_ready_closed\<lparr>keys := forwardKeys False\<rparr>"
  let ?m = "\<lparr>position = vec 0 0 0, orientation = 0 :: real\<rparr>"
  have h: "model ?s = Some ?m" "vx (position ?m) = 0" "vz (position ?m) = 0"
    "keys ?s = forwardKeys False" "activeAction ?s \<noteq> None" "actions ?s ''Walking'' \<noteq> None"
    "mixer ?s = Some []" "length (replicate 60 (0 :: nat)) = 60"
    by (simp_all add: robot_ready_closed_eq robot_actions vec_def)
  from forward_one_second[where s = ?s and m = ?m and ns = "replicate 60 0"] h
  have "\<exists>s' m'. ticks_closed 60 ?s = Inr s' \<and> run step_closed (map Frame (replicate 60 0)) ?s = Inr s' \<and>
        model s' = Some m' \<and> vx (position m') = 0 \<and> vz (position m') = - (60 * moveSpeed) \<and>
        60 * moveSpeed = 6 \<and> currentMovement s' = ''Walking''"
    by blast
  then have "\<exists>s' m'. run step_closed (map Frame (replicate 60 0)) ?s = Inr s' \<and>
        model s' = Some m' \<and> vx (position m') = 0 \<and> vz (position m') = - 6 \<and>
        currentMovement s' = ''Walking''"
    by auto
  with h show ?thesis by blast
qed

subsection \<open>From the load of the robot to the first movement\<close>

lemma createGUI_clips_clip:
  "(\<And>n a. acts n = Some a \<Longrightarrow> clip a = n) \<Longrightarrow>
   createGUI_clips names acts n = Some a \<Longrightarrow> clip a = n"
proof (induction names arbitrary: acts)
  case Nil
  then show ?case by simp
next
  case (Cons name rest)
  show ?case
  proof (rule Cons.IH[OF _ Cons.prems(2)[simplified]])
    fix n' a'
    assume "(acts(name \<mapsto>
          (if name \<in> set emotes \<or> indexOf states name \<ge> 4
           then (clipAction name)\<lparr>clampWhenFinished := True, loop := LoopOnce\<rparr>
           else clipAction name))) n' = Some a'"
    then show "clip a' = n'"
      using Cons.prems(1) by (auto simp: clipAction_def split: if_splits)
  qed
qed

lemma createGUI_Inr:
  assumes "createGUI g s = Inr s0"
  shows "\<exists>a. activeAction s0 = Some a \<and> clip a = ''Walking''"
    and "mixer s0 = Some []" and "currentMovement s0 = currentMovement s"
    and "model s0 = model s" and "keys s0 = keys s"
proof -
  from assms obtain a where
    a: "createGUI_clips (animations g) Map.empty ''Walking'' = Some a"
    and s0: "s0 = s\<lparr>mixer := Some [], actions := createGUI_clips (animations g) Map.empty,
                     activeAction := Some a\<rparr>"
    by (auto simp: createGUI_def Let_def split: option.splits if_splits)
  have "clip a = ''Walking''"
    by (rule createGUI_clips_clip[OF _ a]) simp
  with s0 show "\<exists>a. activeAction s0 = Some a \<and> clip a = ''Walking''" by simp
  from s0 show "mixer s0 = Some []" "currentMovement s0 = currentMovement s"
    "model s0 = model s" "keys s0 = keys s"
    by simp_all
qed

lemma onKeyDown_other_key:
  assumes "\<not> jumpKey k"
  shows "\<exists>ks. onKeyDown k s = Inr (s\<lparr>keys := ks\<rparr>)"
proof -
  consider "toLowerCase k = ''w''" | "toLowerCase k = ''a''" | "toLowerCase k = ''s''"
    | "toLowerCase k = ''d''" | "toLowerCase k = ''shift''"
    | "toLowerCase k \<noteq> ''w''" "toLowerCase k \<noteq> ''a''" "toLowerCase k \<noteq> ''s''"
      "toLowerCase k \<noteq> ''d''" "toLowerCase k \<noteq> ''shift''"
    by blast
  then show ?thesis
  proof cases
    case 1
    show ?thesis
      by (rule exI[of _ "(keys s)\<lparr>key_w := True\<rparr>"]) (simp add: onKeyDown_def 1)
  next
    case 2
    show ?thesis
      by (rule exI[of _ "(keys s)\<lparr>key_a := True\<rparr>"]) (simp add: onKeyDown_def 2)
  next
    case 3
    show ?thesis
      by (rule exI[of _ "(keys s)\<lparr>key_s := True\<rparr>"]) (simp add: onKeyDown_def 3)
  next
    case 4
    show ?thesis
      by (rule exI[of _ "(keys s)\<lparr>key_d := True\<rparr>"]) (simp add: onKeyDown_def 4)
  next
    case 5
    show ?thesis
      by (rule exI[of _ "(keys s)\<lparr>key_shift := True\<rparr>"]) (simp add: onKeyDown_def 5)
  next
    case 6
    from assms have "toLowerCase k \<noteq> '' ''" by (simp add: jumpKey_def)
    with 6 show ?thesis
      by (intro exI[of _ "keys s"]) (simp add: onKeyDown_def)
  qed
qed

lemma onKeyUp_fields [simp]:
  "activeAction (onKeyUp k s) = activeAction s"
  "currentMovement (onKeyUp k s) = currentMovement s"
  "mixer (onKeyUp k s) = mixer s"
  "model (onKeyUp k s) = model s"
  by (simp_all add: onKeyUp_def Let_def)

lemma standStill_idle: "currentMovement s = ''Idle'' \<Longrightarrow> standStill s = Inr s"
  by (simp add: standStill_def)

lemma animate_closed_quiet:
  assumes "mixer s = None \<or> mixer s = Some []" "noNetDirection (keys s)"
    "currentMovement s = ''Idle''"
  shows "animate_closed n s = Inr s"
  using assms
  by (simp add: animate_closed_unarmed updateRobotMovement_closed_still standStill_idle)

lemma animate_tiled_quiet:
  assumes "mixer s = None \<or> mixer s = Some []" "noNetDirection (keys s)"
    "currentMovement s = ''Idle''"
  shows "animate_tiled lib n s = Inr (updateThirdPersonCamera lib s)"
  using assms
  by (simp add: animate_tiled_def mixerUpdate_unarmed updateRobotMovement_tiled_still
        standStill_idle)

lemma updateThirdPersonCamera_fields [simp]:
  "activeAction (updateThirdPersonCamera lib s) = activeAction s"
  "currentMovement (updateThirdPersonCamera lib s) = currentMovement s"
  "mixer (updateThirdPersonCamera lib s) = mixer s"
  "model (updateThirdPersonCamera lib s) = model s"
  "keys (updateThirdPersonCamera lib s) = keys s"
  by (simp_all add: updateThirdPersonCamera_def Let_def split: option.splits)

lemma createTerrainGrid_fields [simp]:
  "activeAction (createTerrainGrid s) = activeAction s"
  "currentMovement (createTerrainGrid s) = currentMovement s"
  "mixer (createTerrainGrid s) = mixer s"
  "model (createTerrainGrid s) = model s"
  "keys (createTerrainGrid s) = keys s"
  by (simp_all add: createTerrainGrid_def Let_def)

lemma spawn_loaded:
  assumes "model s = Some m"
  shows "\<not> throws (spawn lib s)"
    and "activeAction (final_state (spawn lib s)) = activeAction s"
    and "currentMovement (final_state (spawn lib s)) = currentMovement s"
    and "mixer (final_state (spawn lib s)) = mixer s"
    and "model (final_state (spawn lib s)) \<noteq> None"
  using assms by (simp_all add: spawn_def Let_def)

lemma quiet_step_closed:
  assumes "quietEvent (keys s) e"
    "\<exists>a. activeAction s = Some a \<and> clip a = ''Walking''" "currentMovement s = ''Idle''"
    "mixer s = Some []"
  shows "\<exists>s'. step_closed e s = Inr s' \<and> (\<exists>a. activeAction s' = Some a \<and> clip a = ''Walking'')
            \<and> currentMovement s' = ''Idle'' \<and> mixer s' = Some []"
proof (cases e)
  case (KeyDown k)
  with assms(1) have "\<not> jumpKey k" by simp
  from onKeyDown_other_key[OF this, of s] KeyDown assms(2-4) show ?thesis by auto
next
  case (KeyUp k)
  with assms(2-4) show ?thesis by simp
next
  case (Frame n)
  with assms(1) have "noNetDirection (keys s)" by simp
  with assms(2-4) Frame show ?thesis by (simp add: animate_closed_quiet)
qed (use assms in simp_all)

lemma quiet_step_tiled:
  assumes "quietEvent (keys s) e"
    "\<exists>a. activeAction s = Some a \<and> clip a = ''Walking''" "currentMovement s = ''Idle''"
    "mixer s = Some []" "model s \<noteq> None"
  shows "\<exists>s'. step_tiled lib e s = Inr s' \<and> (\<exists>a. activeAction s' = Some a \<and> clip a = ''Walking'')
            \<and> currentMovement s' = ''Idle'' \<and> mixer s' = Some [] \<and> model s' \<noteq> None"
proof (cases e)
  case (KeyDown k)
  with assms(1) have "\<not> jumpKey k" by simp
  from onKeyDown_other_key[OF this, of s] KeyDown assms(2-5) show ?thesis by auto
next
  case (KeyUp k)
  with assms(2-5) show ?thesis by simp
next
  case (Frame n)
  with assms(1) have "noNetDirection (keys s)" by simp
  with assms(2-5) Frame show ?thesis by (simp add: animate_tiled_quiet)
next
  case SpawnTimer
  from assms(5) obtain m where m: "model s = Some m" by auto
  have r: "spawn lib s = Inr (final_state (spawn lib s))"
    using spawn_loaded(1)[OF m] by (rule not_throws_Inr)
  show ?thesis
    unfolding SpawnTimer step_tiled.simps
    by (rule exI[of _ "final_state (spawn lib s)"])
       (use r spawn_loaded(2-5)[OF m, of lib] assms(2-4) in simp)
next
  case TerrainLoaded
  with assms(2-5) show ?thesis by simp
qed (use assms in simp_all)

lemma quiet_run_closed:
  assumes "quiet step_closed s evs"
    "\<exists>a. activeAction s = Some a \<and> clip a = ''Walking''" "currentMovement s = ''Idle''"
    "mixer s = Some []"
  shows "\<exists>s'. run step_closed evs s = Inr s' \<and> (\<exists>a. activeAction s' = Some a \<and> clip a = ''Walking'')
            \<and> currentMovement s' = ''Idle''"
  using assms
proof (induction evs arbitrary: s)
  case Nil
  then show ?case by simp
next
  case (Cons e evs)
  from Cons.prems(1) have q: "quietEvent (keys s) e" by simp
  from quiet_step_closed[OF q Cons.prems(2-4)] obtain s1 where
    s1: "step_closed e s = Inr s1" "\<exists>a. activeAction s1 = Some a \<and> clip a = ''Walking''"
      "currentMovement s1 = ''Idle''" "mixer s1 = Some []"
    by blast
  from Cons.prems(1) s1(1) have "quiet step_closed s1 evs" by simp
  from Cons.IH[OF this s1(2-4)] s1(1) show ?case by simp
qed

lemma quiet_run_tiled:
  assumes "quiet (step_tiled lib) s evs"
    "\<exists>a. activeAction s = Some a \<and> clip a = ''Walking''" "currentMovement s = ''Idle''"
    "mixer s = Some []" "model s \<noteq> None"
  shows "\<exists>s'. run (step_tiled lib) evs s = Inr s' \<and> (\<exists>a. activeAction s' = Some a \<and> clip a = ''Walking'')
            \<and> currentMovement s' = ''Idle''"
  using assms
proof (induction evs arbitrary: s)
  case Nil
  then show ?case by simp
next
  case (Cons e evs)
  from Cons.prems(1) have q: "quietEvent (keys s) e" by simp
  from quiet_step_tiled[OF q Cons.prems(2-5), of lib] obtain s1 where
    s1: "step_tiled lib e s = Inr s1" "\<exists>a. activeAction s1 = Some a \<and> clip a = ''Walking''"
      "currentMovement s1 = ''Idle''" "mixer s1 = Some []" "model s1 \<noteq> None"
    by blast
  from Cons.prems(1) s1(1) have "quiet (step_tiled lib) s1 evs" by simp
  from Cons.IH[OF this s1(2-5)] s1(1) show ?case by simp
qed

lemma toLowerCase_examples:
  "toLowerCase ''w'' = ''w''" "toLowerCase ''S'' = ''s''"
  by code_simp+

lemma robot_loads_closed: "onRobotLoaded_closed robot_gltf initial_closed = Inr robot_ready_closed"
proof -
  have "\<not> throws (onRobotLoaded_closed robot_gltf initial_closed)"
    by (simp add: onRobotLoaded_closed_def createGUI_def Let_def robot_head robot_actions)
  then show ?thesis
    unfolding robot_ready_closed_def by (rule not_throws_Inr)
qed

lemma robot_loads_tiled:
  "onRobotLoaded_tiled robot_gltf (createTerrainGrid (initial_tiled lib)) = Inr (robot_ready_tiled lib)"
proof -
  have "\<not> throws (onRobotLoaded_tiled robot_gltf (createTerrainGrid (initial_tiled lib)))"
    by (simp add: onRobotLoaded_tiled_def createGUI_def Let_def robot_head robot_actions)
  then have "onRobotLoaded_tiled robot_gltf (createTerrainGrid (initial_tiled lib)) =
      Inr (final_state (onRobotLoaded_tiled robot_gltf (createTerrainGrid (initial_tiled lib))))"
    by (rule not_throws_Inr)
  also have "final_state (onRobotLoaded_tiled robot_gltf (createTerrainGrid (initial_tiled lib)))
      = robot_ready_tiled lib"
    by (simp add: robot_ready_tiled_def onRobotLoaded_tiled_def createGUI_def Let_def robot_head
          robot_actions createTerrainGrid_def)
  finally show ?thesis .
qed

lemma quiet_example_closed:
  "quiet step_closed robot_ready_closed [KeyDown ''w'', KeyDown ''S'', Frame 0]"
  by (simp add: jumpKey_def toLowerCase_examples onKeyDown_def noNetDirection_def
        robot_ready_closed_eq initial_keys_def)

lemma quiet_example_tiled:
  "quiet (step_tiled lib) (robot_ready_tiled lib) [KeyDown ''w'', KeyDown ''S'', Frame 0]"
  by (simp add: jumpKey_def toLowerCase_examples onKeyDown_def noNetDirection_def
        robot_ready_tiled_eq initial_keys_def)

text \<open>
  C10. Once the robot is loaded (in the tiled variant before or after the terrain), and
  as long as keys other than the jump key are pressed and released, the terrain arrives,
  the robot is placed and frames pass in which the held keys cancel, every handler
  completes, the
  active action is the one of the clip Walking and the recorded locomotion state is
  Idle: no such frame starts the Idle clip. The statement holds for every quiet event
  sequence, hence after each prefix of one.
\<close>

theorem walking_clip_plays_while_idle:
  "(onRobotLoaded_closed g initial_closed = Inr sa \<and> quiet step_closed sa evs \<longrightarrow>
      (\<exists>s a. run step_closed evs sa = Inr s \<and> activeAction s = Some a \<and> clip a = ''Walking''
         \<and> currentMovement s = ''Idle''))
   \<and> (onRobotLoaded_tiled g (if terrainFirst then createTerrainGrid (initial_tiled lib)
                               else initial_tiled lib) = Inr ta
       \<and> quiet (step_tiled lib) ta evs \<longrightarrow>
      (\<exists>t a. run (step_tiled lib) evs ta = Inr t \<and> activeAction t = Some a \<and> clip a = ''Walking''
         \<and> currentMovement t = ''Idle''))"
proof (intro conjI impI)
  assume h: "onRobotLoaded_closed g initial_closed = Inr sa \<and> quiet step_closed sa evs"
  then have c: "createGUI g (initial_closed\<lparr>model := Some \<lparr>position = vec 0 0 0, orientation = 0\<rparr>\<rparr>) = Inr sa"
    by (simp add: onRobotLoaded_closed_def)
  have i: "currentMovement sa = ''Idle''"
    using createGUI_Inr(3)[OF c] by (simp add: initial_closed_def)
  from h quiet_run_closed[OF _ createGUI_Inr(1)[OF c] i createGUI_Inr(2)[OF c], where evs = evs]
  show "\<exists>s a. run step_closed evs sa = Inr s \<and> activeAction s = Some a \<and> clip a = ''Walking''
         \<and> currentMovement s = ''Idle''"
    by blast
next
  let ?t = "if terrainFirst then createTerrainGrid (initial_tiled lib) else initial_tiled lib"
  assume h: "onRobotLoaded_tiled g ?t = Inr ta \<and> quiet (step_tiled lib) ta evs"
  then have c: "createGUI g (?t\<lparr>model := Some \<lparr>position = vec 0 0 0,
                                     orientation = \<lparr>qx = 0, qy = 0, qz = 0, qw = 1\<rparr>\<rparr>\<rparr>) = Inr ta"
    by (simp add: onRobotLoaded_tiled_def)
  have i: "currentMovement ta = ''Idle''"
    using createGUI_Inr(3)[OF c] by (simp add: initial_tiled_def)
  have m: "model ta \<noteq> None"
    using createGUI_Inr(4)[OF c] by simp
  from h quiet_run_tiled[OF _ createGUI_Inr(1)[OF c] i createGUI_Inr(2)[OF c] m, where evs = evs]
  show "\<exists>t a. run (step_tiled lib) evs ta = Inr t \<and> activeAction t = Some a \<and> clip a = ''Walking''
         \<and> currentMovement t = ''Idle''"
    by blast
qed

text \<open>Forward and back pressed one after the other, then a frame, in both variants.\<close>

theorem walking_clip_plays_while_idle_witness:
  "onRobotLoaded_closed robot_gltf initial_closed = Inr robot_ready_closed
   \<and> quiet step_closed robot_ready_closed [KeyDown ''w'', KeyDown ''S'', Frame 0]
   \<and> onRobotLoaded_tiled robot_gltf (createTerrainGrid (initial_tiled flat_three))
        = Inr (robot_ready_tiled flat_three)
   \<and> quiet (step_tiled flat_three) (robot_ready_tiled flat_three) [KeyDown ''w'', KeyDown ''S'', Frame 0]
   \<and> (\<exists>s a. run step_closed [KeyDown ''w'', KeyDown ''S'', Frame 0] robot_ready_closed = Inr s
          \<and> activeAction s = Some a \<and> clip a = ''Walking'' \<and> currentMovement s = ''Idle'')
   \<and> (\<exists>t a. run (step_tiled flat_three) [KeyDown ''w'', KeyDown ''S'', Frame 0]
                 (robot_ready_tiled flat_three) = Inr t
          \<and> activeAction t = Some a \<and> clip a = ''Walking'' \<and> currentMovement t = ''Idle'')"
  using walking_clip_plays_while_idle[where g = robot_gltf and sa = robot_ready_closed
      and evs = "[KeyDown ''w'', KeyDown ''S'', Frame 0]" and terrainFirst = True
      and lib = flat_three and ta = "robot_ready_tiled flat_three"]
    robot_loads_closed robot_loads_tiled[of flat_three] quiet_example_closed
    quiet_example_tiled[of flat_three]
  by simp

subsection \<open>Faults inside a frame\<close>

lemma sparse_actions:
  "createGUI_clips (animations sparse_gltf) Map.empty ''Walking'' = Some (clipAction ''Walking'')"
  "createGUI_clips (animations sparse_gltf) Map.empty ''Idle'' = Some (clipAction ''Idle'')"
  "createGUI_clips (animations sparse_gltf) Map.empty ''Running'' = None"
  by (simp_all add: sparse_gltf_def emotes_def states_def indexOf_def clipAction_def)

lemma sparse_head: "head_4 sparse_gltf = Some []"
  by (simp add: sparse_gltf_def)

lemma sparse_ready_closed_eq:
  "sparse_ready_closed =
     \<lparr>model = Some \<lparr>position = vec 0 0 0, orientation = 0\<rparr>, mixer = Some [],
      actions = createGUI_clips (animations sparse_gltf) Map.empty,
      activeAction = Some (clipAction ''Walking''), previousAction = None,
      api_state = ''Walking'', keys = initial_keys, currentMovement = ''Idle''\<rparr>"
  by (simp add: sparse_ready_closed_def onRobotLoaded_closed_def createGUI_def initial_closed_def
        Let_def sparse_actions sparse_head)

lemma sparse_ready_tiled_eq:
  "sparse_ready_tiled =
     \<lparr>model = Some \<lparr>position = vec 0 0 0, orientation = \<lparr>qx = 0, qy = 0, qz = 0, qw = 1\<rparr>\<rparr>,
      mixer = Some [],
      actions = createGUI_clips (animations sparse_gltf) Map.empty,
      activeAction = Some (clipAction ''Walking''), previousAction = None,
      api_state = ''Walking'', keys = initial_keys, currentMovement = ''Idle'',
      terrainTiles = map (\<lambda>p. \<lparr>tile_position = p\<rparr>)
        [vec (- 99) 0 (- 99), vec (- 99) 0 0, vec (- 99) 0 99,
         vec 0 0 (- 99), vec 0 0 0, vec 0 0 99,
         vec 99 0 (- 99), vec 99 0 0, vec 99 0 99],
      camera_position = vec (- 5) 3 10,
      camera_direction = vec 0 0 (- 1)\<rparr>"
  by (simp add: sparse_ready_tiled_def onRobotLoaded_tiled_def createGUI_def initial_tiled_def
        Let_def sparse_actions createTerrainGrid_def tileRepeat_def tileSize_def scaleFactor_def
        upto.simps sparse_head flat_three_def)

lemma throws_closed_moving:
  assumes "model s = Some m" "0 < vlength (moveDirection_closed (keys s))"
  shows "throws (updateRobotMovement_closed s) = throws (locomotion s)"
  using assms
  by (simp add: updateRobotMovement_closed_def Let_def throws_locomotion)

lemma throws_closed_step:
  "throws (updateRobotMovement_closed s) =
     (if model s = None then False
      else if 0 < vlength (moveDirection_closed (keys s)) then throws (locomotion s)
      else throws (standStill s))"
  by (simp add: updateRobotMovement_closed_def Let_def throws_locomotion throws_standStill
        split: option.splits)

lemma throws_tiled_step:
  "throws (updateRobotMovement_tiled lib s) =
     (if model s = None then False
      else if terrainTiles s = [] then False
      else if 0 < vlength (cameraRelativeDirection s) then throws (locomotion s)
      else throws (standStill s))"
proof (cases "model s")
  case None
  then show ?thesis by (simp add: updateRobotMovement_tiled_def)
next
  case (Some m)
  show ?thesis
  proof (cases "terrainTiles s = []")
    case True
    with Some show ?thesis by (simp add: updateRobotMovement_tiled_def)
  next
    case False
    show ?thesis
    proof (cases "0 < vlength (cameraRelativeDirection s)")
      case True
      show ?thesis
        unfolding updateRobotMovement_tiled_moving[OF Some False True] Let_def
        using Some False True
        by (simp add: throws_repositionTerrain throws_locomotion)
    next
      case n: False
      with Some False show ?thesis
        by (simp add: updateRobotMovement_tiled_def Let_def)
    qed
  qed
qed

text \<open>
  C9, as the code has it. \<^verbatim>\<open>animate\<close> has no handler: a frame throws exactly when
  its mixer update or its movement step throws, it then stops where the throw happened
  (the state keeps what was written before, the later steps of the frame do not run),
  and otherwise it runs to its end. The movement step throws exactly when the actor is
  loaded (with a tile, in the tiled variant) and the crossfade it starts throws.
\<close>

theorem frame_faults_propagate:
  "throws (animate_closed n s) =
     (throws (if mixer s = None then Inr s else mixerUpdate n s) \<or>
      throws (updateRobotMovement_closed
                (final_state (if mixer s = None then Inr s else mixerUpdate n s))))
   \<and> final_state (animate_closed n s) =
     (if throws (if mixer s = None then Inr s else mixerUpdate n s)
      then final_state (if mixer s = None then Inr s else mixerUpdate n s)
      else final_state (updateRobotMovement_closed
                (final_state (if mixer s = None then Inr s else mixerUpdate n s))))
   \<and> throws (animate_tiled lib n t) =
     (throws (if mixer t = None then Inr t else mixerUpdate n t) \<or>
      throws (updateRobotMovement_tiled lib
                (final_state (if mixer t = None then Inr t else mixerUpdate n t))))
   \<and> final_state (animate_tiled lib n t) =
     (if throws (if mixer t = None then Inr t else mixerUpdate n t)
      then final_state (if mixer t = None then Inr t else mixerUpdate n t)
      else if throws (updateRobotMovement_tiled lib
                (final_state (if mixer t = None then Inr t else mixerUpdate n t)))
      then final_state (updateRobotMovement_tiled lib
                (final_state (if mixer t = None then Inr t else mixerUpdate n t)))
      else updateThirdPersonCamera lib (final_state (updateRobotMovement_tiled lib
                (final_state (if mixer t = None then Inr t else mixerUpdate n t)))))
   \<and> throws (updateRobotMovement_closed s) =
     (if model s = None then False
      else if 0 < vlength (moveDirection_closed (keys s)) then throws (locomotion s)
      else throws (standStill s))
   \<and> throws (updateRobotMovement_tiled lib t) =
     (if model t = None then False
      else if terrainTiles t = [] then False
      else if 0 < vlength (cameraRelativeDirection t) then throws (locomotion t)
      else throws (standStill t))"
proof -
  have c: "animate_closed n s =
      bind_result (if mixer s = None then Inr s else mixerUpdate n s) updateRobotMovement_closed"
    by (simp add: animate_closed_def)
  have d: "animate_tiled lib n t =
      bind_result (bind_result (if mixer t = None then Inr t else mixerUpdate n t)
          (updateRobotMovement_tiled lib)) (\<lambda>s'. Inr (updateThirdPersonCamera lib s'))"
    by (simp add: animate_tiled_def)
  show ?thesis
    unfolding c d throws_bind final_bind
    using throws_closed_step[of s] throws_tiled_step[of lib t]
    by simp
qed

text \<open>
  With an asset that has no Running clip, the frame in which forward and sprint are held
  throws out of \<^verbatim>\<open>animate\<close>, in both variants.
\<close>

theorem frame_fault_escapes:
  "throws (animate_closed 0 (sparse_ready_closed\<lparr>keys := forwardKeys True\<rparr>))
   \<and> throws (animate_tiled flat_three 0 (sparse_ready_tiled\<lparr>keys := forwardKeys True\<rparr>))"
proof -
  let ?s = "sparse_ready_closed\<lparr>keys := forwardKeys True\<rparr>"
  let ?t = "sparse_ready_tiled\<lparr>keys := forwardKeys True\<rparr>"
  have ms: "model ?s = Some \<lparr>position = vec 0 0 0, orientation = 0\<rparr>" "mixer ?s = Some []"
    by (simp_all add: sparse_ready_closed_eq)
  have ds: "0 < vlength (moveDirection_closed (keys ?s))"
    by (simp add: forward_direction)
  have ls: "throws (locomotion ?s)"
    by (simp add: throws_locomotion sparse_ready_closed_eq sparse_actions)
  have a: "throws (animate_closed 0 ?s)"
    using ms(2) throws_closed_moving[OF ms(1) ds] ls
    by (simp add: animate_closed_unarmed)
  have mt: "model ?t = Some \<lparr>position = vec 0 0 0, orientation = \<lparr>qx = 0, qy = 0, qz = 0, qw = 1\<rparr>\<rparr>"
    "mixer ?t = Some []" "terrainTiles ?t \<noteq> []" "camera_direction ?t = vec 0 0 (- 1)"
    "keys ?t = forwardKeys True"
    by (simp_all add: sparse_ready_tiled_eq)
  have dt: "0 < vlength (cameraRelativeDirection ?t)"
    using level_camera_forward(2)[OF mt(4,5)] by simp
  have lt: "throws (locomotion ?t)"
    by (simp add: throws_locomotion sparse_ready_tiled_eq sparse_actions)
  have "throws (updateRobotMovement_tiled flat_three ?t)"
    using lt
    unfolding updateRobotMovement_tiled_moving[OF mt(1,3) dt] Let_def
    by (simp add: throws_locomotion)
  then have b: "throws (animate_tiled flat_three 0 ?t)"
    using mt(2) by (simp add: animate_tiled_def)
  from a b show ?thesis ..
qed

subsection \<open>One-shot overlays and the return to the locomotion state\<close>

lemma listener_lists: "distinct (ls :: listener list) \<Longrightarrow> ls = [] \<or> ls = [RestoreState]"
proof (cases ls)
  case Nil
  then show ?thesis by simp
next
  case (Cons l ls')
  assume "distinct ls"
  with Cons have "l \<notin> set ls'" by simp
  moreover have "l = RestoreState" by (cases l) simp
  moreover have "\<And>x. x \<in> set ls' \<Longrightarrow> x = RestoreState"
    by (metis listener.exhaust)
  ultimately have "ls' = []" by (cases ls') auto
  with Cons \<open>l = RestoreState\<close> show ?thesis by simp
qed

lemma addEventListener_armed:
  "addEventListener RestoreState [] = [RestoreState]"
  "addEventListener RestoreState [RestoreState] = [RestoreState]"
  by (simp_all add: addEventListener_def)

lemma api_emote_arms:
  assumes "mixer s = Some ls" "ls = [] \<or> ls = [RestoreState]" "\<not> throws (api_emote name s)"
  shows "mixer (final_state (api_emote name s)) = Some [RestoreState]"
    and "activeAction (final_state (api_emote name s)) = actions s name"
    and "currentMovement (final_state (api_emote name s)) = currentMovement s"
    and "actions (final_state (api_emote name s)) = actions s"
proof -
  from assms(3) have nt: "\<not> throws (fadeToAction name 0.2 s)"
    by (simp add: api_emote_def)
  then have r: "fadeToAction name 0.2 s = Inr (final_state (fadeToAction name 0.2 s))"
    by (rule not_throws_Inr)
  have e: "api_emote name s =
      Inr ((final_state (fadeToAction name 0.2 s))\<lparr>mixer := Some (addEventListener RestoreState ls)\<rparr>)"
    unfolding api_emote_def by (subst r) (simp add: assms(1))
  show "mixer (final_state (api_emote name s)) = Some [RestoreState]"
    unfolding e using assms(2) by (auto simp: addEventListener_armed)
  show "activeAction (final_state (api_emote name s)) = actions s name"
    unfolding e by (simp add: final_fadeToAction)
  show "currentMovement (final_state (api_emote name s)) = currentMovement s"
    unfolding e by (simp add: final_fadeToAction)
  show "actions (final_state (api_emote name s)) = actions s"
    unfolding e by (simp add: final_fadeToAction)
qed

lemma armed_finish_restores:
  assumes "mixer s = Some [RestoreState]"
  shows "mixer (final_state (dispatchFinished s)) = Some []"
    and "activeAction (final_state (dispatchFinished s)) = actions s (currentMovement s)"
  using assms
  by (simp_all add: dispatchFinished_def restoreState_def removeEventListener_def Let_def
        final_bind final_fadeToAction)

lemma keyboard_jump_does_not_arm:
  "mixer (final_state (onKeyDown '' '' s)) = mixer s"
  by (simp add: onKeyDown_def Let_def toLowerCase_def)

text \<open>
  C4. Every overlay that finishes should lead back to the recorded locomotion state. An
  emote button arms the return (once, however often it is pressed: \<open>api_emote_arms\<close>)
  and the finish consumes it and restores (\<open>armed_finish_restores\<close>). The jump key
  starts the same overlay without arming anything: on the loaded robot, after the space
  key the mixer has no listener, the finish of Jump changes nothing, and the active
  action stays Jump while the locomotion state is Idle; the same overlay started from
  its button ends in the Idle action.
\<close>

theorem keyboard_jump_is_never_restored:
  "\<not> throws (onKeyDown '' '' robot_ready_closed)
   \<and> mixer (final_state (onKeyDown '' '' robot_ready_closed)) = Some []
   \<and> dispatchFinished (final_state (onKeyDown '' '' robot_ready_closed))
       = Inr (final_state (onKeyDown '' '' robot_ready_closed))
   \<and> map_option clip (activeAction (final_state (onKeyDown '' '' robot_ready_closed))) = Some ''Jump''
   \<and> currentMovement (final_state (onKeyDown '' '' robot_ready_closed)) = ''Idle''
   \<and> \<not> throws (api_emote ''Jump'' robot_ready_closed)
   \<and> mixer (final_state (api_emote ''Jump'' robot_ready_closed)) = Some [RestoreState]
   \<and> map_option clip (activeAction (final_state (api_emote ''Jump'' robot_ready_closed))) = Some ''Jump''
   \<and> map_option clip (activeAction (final_state (dispatchFinished
         (final_state (api_emote ''Jump'' robot_ready_closed))))) = Some ''Idle''"
proof -
  have sp: "toLowerCase '' '' = '' ''" by (simp add: toLowerCase_def)
  have k: "onKeyDown '' '' robot_ready_closed = fadeToAction ''Jump'' 0.2 robot_ready_closed"
    by (simp add: onKeyDown_def sp robot_ready_closed_eq)
  have f: "\<not> throws (fadeToAction ''Jump'' 0.2 robot_ready_closed)"
    "final_state (fadeToAction ''Jump'' 0.2 robot_ready_closed) =
       robot_ready_closed\<lparr>previousAction := Some (clipAction ''Walking''),
          activeAction := Some \<lparr>clip = ''Jump'', clampWhenFinished = True, loop = LoopOnce\<rparr>\<rparr>"
    by (simp_all add: throws_fadeToAction final_fadeToAction robot_ready_closed_eq robot_actions
          clipAction_def)
  have m: "mixer robot_ready_closed = Some []" "currentMovement robot_ready_closed = ''Idle''"
    by (simp_all add: robot_ready_closed_eq)
  have e: "\<not> throws (api_emote ''Jump'' robot_ready_closed)"
    using f(1) m(1) by (simp add: api_emote_def final_fadeToAction)
  note arm = api_emote_arms[OF m(1) _ e, simplified]
  have i: "actions robot_ready_closed ''Idle'' = Some (clipAction ''Idle'')"
    "actions robot_ready_closed ''Jump'' = Some \<lparr>clip = ''Jump'', clampWhenFinished = True, loop = LoopOnce\<rparr>"
    by (simp_all add: robot_ready_closed_eq robot_actions)
  have fin: "activeAction (final_state (dispatchFinished (final_state (api_emote ''Jump'' robot_ready_closed))))
      = Some (clipAction ''Idle'')"
    using armed_finish_restores(2)[OF arm(1)] arm(3,4) m(2) i(1) by simp
  show ?thesis
    unfolding k
    using f m e arm(1,2) i(2) fin
    by (simp add: dispatchFinished_unarmed clipAction_def)
qed

subsection \<open>Sprint over several frames with a camera that follows\<close>

lemma repositionTerrain_at_length: "length (repositionTerrain_at pos ts) = length ts"
  by (simp add: repositionTerrain_at_def Let_def repositionTerrain_loop_length
           del: repositionTerrain_loop.simps)

lemma flattened_forward:
  assumes "0 < h" "h = sqrt (vx d * vx d + vz d * vz d)"
  shows "normalize ((normalize d)\<lparr>vy := 0\<rparr>) = vec (vx d / h) 0 (vz d / h)"
proof -
  let ?l = "vlength d"
  have hl: "h \<le> ?l"
    unfolding assms(2) vlength_def by (rule real_sqrt_le_mono) simp
  with assms(1) have l: "0 < ?l" by simp
  have n: "normalize d = vec (vx d / ?l) (vy d / ?l) (vz d / ?l)"
    using l by (simp add: normalize_def multiplyScalar_def vec_def Let_def)
  have "vx d / ?l * (vx d / ?l) + vz d / ?l * (vz d / ?l) = (vx d * vx d + vz d * vz d) / (?l * ?l)"
    by (simp add: add_divide_distrib)
  then have "sqrt (vx d / ?l * (vx d / ?l) + vz d / ?l * (vz d / ?l)) = h / ?l"
    using l by (simp add: assms(2) real_sqrt_divide)
  then have fl: "vlength ((normalize d)\<lparr>vy := 0\<rparr>) = h / ?l"
    unfolding n by (simp add: vlength_def vec_def)
  have "h / ?l \<noteq> 0" using assms(1) l by simp
  then show ?thesis
    unfolding normalize_def[of "(normalize d)\<lparr>vy := 0\<rparr>"] Let_def fl
    using l assms(1)
    by (simp add: n multiplyScalar_def vec_def)
qed

lemma unit_flat:
  assumes "0 < h" "h = sqrt (x * x + z * z)"
  shows "vlength (vec (x / h) 0 (z / h)) = 1"
proof -
  have "x / h * (x / h) + z / h * (z / h) = (x * x + z * z) / (h * h)"
    by (simp add: add_divide_distrib)
  also have "h * h = x * x + z * z"
    unfolding assms(2) by (metis abs_of_nonneg real_sqrt_abs2 real_sqrt_ge_zero real_sqrt_mult
        add_nonneg_nonneg zero_le_square)
  finally have "x / h * (x / h) + z / h * (z / h) = 1"
    using assms(1) \<open>h * h = x * x + z * z\<close> by (metis divide_self_if mult_eq_0_iff less_irrefl)
  then show ?thesis by (simp add: vlength_def vec_def)
qed

lemma forward_camera_direction:
  assumes "keys s = forwardKeys b" "camera_direction s = normalize d"
    "0 < h" "h = sqrt (vx d * vx d + vz d * vz d)"
  shows "cameraRelativeDirection s = vec (vx d / h) 0 (vz d / h)"
    and "vlength (cameraRelativeDirection s) = 1"
    and "normalize (cameraRelativeDirection s) = vec (vx d / h) 0 (vz d / h)"
proof -
  show c: "cameraRelativeDirection s = vec (vx d / h) 0 (vz d / h)"
    unfolding cameraRelativeDirection_def Let_def assms(1,2) flattened_forward[OF assms(3,4)]
    by (simp add: direction_tiled_def Let_def vadd_def vec_def)
  show l: "vlength (cameraRelativeDirection s) = 1"
    unfolding c by (rule unit_flat[OF assms(3,4)])
  show "normalize (cameraRelativeDirection s) = vec (vx d / h) 0 (vz d / h)"
    using l unfolding normalize_def Let_def by (simp add: c multiplyScalar_def vec_def)
qed

lemma follow_three_fields [simp]:
  "intersectObject follow_three rc = (\<lambda>t. [])"
  "slerp follow_three q r k = q"
  "applyQuaternion follow_three v q = v"
  "lookAt follow_three eye target = normalize (vsub target eye)"
  by (simp_all add: follow_three_def flat_three_def)

lemma concat_no_hits [simp]: "concat (map (\<lambda>t. []) ts) = []"
  by (induction ts) simp_all

lemma tiled_fields_final_locomotion [simp]:
  "terrainTiles (final_state (locomotion s)) = terrainTiles s"
  "camera_position (final_state (locomotion s)) = camera_position s"
  "camera_direction (final_state (locomotion s)) = camera_direction s"
  by (simp_all add: final_locomotion Let_def)

lemma follow_tick:
  assumes "model s = Some m" "terrainTiles s \<noteq> []" "keys s = forwardKeys b"
    "camera_direction s = normalize d" "0 < h" "h = sqrt (vx d * vx d + vz d * vz d)"
    "activeAction s \<noteq> None" "actions s (if b then ''Running'' else ''Walking'') \<noteq> None"
  shows "\<not> throws (updateRobotMovement_tiled follow_three s)"
    and "model (final_state (updateRobotMovement_tiled follow_three s)) =
           Some (m\<lparr>position := vec (vx (position m) + vx d / h * (if b then moveSpeed * 2 else moveSpeed)) 0
                                     (vz (position m) + vz d / h * (if b then moveSpeed * 2 else moveSpeed))\<rparr>)"
    and "keys (final_state (updateRobotMovement_tiled follow_three s)) = keys s"
    and "mixer (final_state (updateRobotMovement_tiled follow_three s)) = mixer s"
    and "camera_position (final_state (updateRobotMovement_tiled follow_three s)) = camera_position s"
    and "terrainTiles (final_state (updateRobotMovement_tiled follow_three s)) \<noteq> []"
    and "activeAction (final_state (updateRobotMovement_tiled follow_three s)) \<noteq> None"
    and "actions (final_state (updateRobotMovement_tiled follow_three s)) = actions s"
proof -
  note f = forward_camera_direction[OF assms(3,4,5,6)]
  have pos: "0 < vlength (cameraRelativeDirection s)" using f(2) by simp
  note u = updateRobotMovement_tiled_moving[OF assms(1,2) pos, of follow_three]
  let ?s1 = "s\<lparr>model := Some (m\<lparr>position := vec (vx (position m) + vx d / h * (if b then moveSpeed * 2 else moveSpeed)) 0
                                     (vz (position m) + vz d / h * (if b then moveSpeed * 2 else moveSpeed))\<rparr>)\<rparr>"
  have e: "updateRobotMovement_tiled follow_three s = bind_result (locomotion ?s1) repositionTerrain"
    unfolding u Let_def f(3)
    by (simp add: vadd_def multiplyScalar_def vec_def assms(3))
  have nl: "\<not> throws (locomotion ?s1)"
    using assms(3,7,8) by (auto simp: throws_locomotion Let_def)
  have ml: "model (final_state (locomotion ?s1)) = model ?s1" by simp
  show "\<not> throws (updateRobotMovement_tiled follow_three s)"
    unfolding e using nl by (simp add: throws_repositionTerrain)
  show "model (final_state (updateRobotMovement_tiled follow_three s)) =
           Some (m\<lparr>position := vec (vx (position m) + vx d / h * (if b then moveSpeed * 2 else moveSpeed)) 0
                                     (vz (position m) + vz d / h * (if b then moveSpeed * 2 else moveSpeed))\<rparr>)"
    unfolding e using nl by (simp add: final_bind)
  show "keys (final_state (updateRobotMovement_tiled follow_three s)) = keys s"
    unfolding e using nl
    by (simp add: final_bind final_repositionTerrain final_locomotion Let_def split: option.splits)
  show "mixer (final_state (updateRobotMovement_tiled follow_three s)) = mixer s"
    unfolding e using nl
    by (simp add: final_bind final_repositionTerrain final_locomotion Let_def split: option.splits)
  show "camera_position (final_state (updateRobotMovement_tiled follow_three s)) = camera_position s"
    unfolding e using nl
    by (simp add: final_bind final_repositionTerrain final_locomotion Let_def split: option.splits)
  have "terrainTiles (final_state (updateRobotMovement_tiled follow_three s)) =
      repositionTerrain_at (vec (vx (position m) + vx d / h * (if b then moveSpeed * 2 else moveSpeed)) 0
                                     (vz (position m) + vz d / h * (if b then moveSpeed * 2 else moveSpeed)))
        (terrainTiles s)"
    unfolding e using nl by (simp add: final_bind final_repositionTerrain)
  then have "length (terrainTiles (final_state (updateRobotMovement_tiled follow_three s))) =
      length (terrainTiles s)"
    by (simp only: repositionTerrain_at_length)
  with assms(2) show "terrainTiles (final_state (updateRobotMovement_tiled follow_three s)) \<noteq> []"
    by (metis length_0_conv)
  show "activeAction (final_state (updateRobotMovement_tiled follow_three s)) \<noteq> None"
    unfolding e using nl assms(3,7,8)
    by (auto simp: final_bind final_repositionTerrain final_locomotion Let_def)
  show "actions (final_state (updateRobotMovement_tiled follow_three s)) = actions s"
    unfolding e using nl
    by (simp add: final_bind final_repositionTerrain final_locomotion Let_def split: option.splits)
qed

lemma cameraGround_follow [simp]: "cameraGround follow_three ts p = p"
  by (simp add: cameraGround_def Let_def)

lemma follow_frame:
  assumes "model s = Some m" "terrainTiles s \<noteq> []" "keys s = forwardKeys b"
    "camera_direction s = normalize d" "0 < h" "h = sqrt (vx d * vx d + vz d * vz d)"
    "activeAction s \<noteq> None" "actions s (if b then ''Running'' else ''Walking'') \<noteq> None"
    "mixer s = Some []"
    "p = vec (vx (position m) + vx d / h * (if b then moveSpeed * 2 else moveSpeed)) 0
             (vz (position m) + vz d / h * (if b then moveSpeed * 2 else moveSpeed))"
    "c = lerp (camera_position s) (vadd p (vec 0 5 (- 10))) 0.1"
  shows "\<not> throws (animate_tiled follow_three 0 s)"
    and "model (final_state (animate_tiled follow_three 0 s)) = Some (m\<lparr>position := p\<rparr>)"
    and "keys (final_state (animate_tiled follow_three 0 s)) = forwardKeys b"
    and "mixer (final_state (animate_tiled follow_three 0 s)) = Some []"
    and "camera_position (final_state (animate_tiled follow_three 0 s)) = c"
    and "camera_direction (final_state (animate_tiled follow_three 0 s)) =
           normalize (vsub (vadd p (vec 0 2 0)) c)"
    and "terrainTiles (final_state (animate_tiled follow_three 0 s)) \<noteq> []"
    and "activeAction (final_state (animate_tiled follow_three 0 s)) \<noteq> None"
    and "actions (final_state (animate_tiled follow_three 0 s)) = actions s"
proof -
  let ?t = "final_state (updateRobotMovement_tiled follow_three s)"
  note t = follow_tick[OF assms(1-8)]
  have r: "updateRobotMovement_tiled follow_three s = Inr ?t"
    using t(1) by (rule not_throws_Inr)
  have a: "animate_tiled follow_three 0 s = Inr (updateThirdPersonCamera follow_three ?t)"
    unfolding animate_tiled_def using assms(9) by (simp, subst r, simp)
  have mt: "model ?t = Some (m\<lparr>position := p\<rparr>)"
    using t(2) assms(10) by simp
  have cam: "updateThirdPersonCamera follow_three ?t =
      ?t\<lparr>camera_position := c, camera_direction := normalize (vsub (vadd p (vec 0 2 0)) c)\<rparr>"
    unfolding updateThirdPersonCamera_def mt Let_def
    by (simp add: t(5) assms(11))
  show "\<not> throws (animate_tiled follow_three 0 s)" unfolding a by simp
  show "model (final_state (animate_tiled follow_three 0 s)) = Some (m\<lparr>position := p\<rparr>)"
    unfolding a cam using mt by simp
  show "keys (final_state (animate_tiled follow_three 0 s)) = forwardKeys b"
    unfolding a cam using t(3) assms(3) by simp
  show "mixer (final_state (animate_tiled follow_three 0 s)) = Some []"
    unfolding a cam using t(4) assms(9) by simp
  show "camera_position (final_state (animate_tiled follow_three 0 s)) = c"
    unfolding a cam by simp
  show "camera_direction (final_state (animate_tiled follow_three 0 s)) =
           normalize (vsub (vadd p (vec 0 2 0)) c)"
    unfolding a cam by simp
  show "terrainTiles (final_state (animate_tiled follow_three 0 s)) \<noteq> []"
    unfolding a cam using t(6) by simp
  show "activeAction (final_state (animate_tiled follow_three 0 s)) \<noteq> None"
    unfolding a cam using t(7) by simp
  show "actions (final_state (animate_tiled follow_three 0 s)) = actions s"
    unfolding a cam using t(8) by simp
qed

lemma orbited_fields:
  "model (orbited_tiled\<lparr>keys := forwardKeys b\<rparr>) =
     Some \<lparr>position = vec 0 0 0, orientation = \<lparr>qx = 0, qy = 0, qz = 0, qw = 1\<rparr>\<rparr>"
  "terrainTiles (orbited_tiled\<lparr>keys := forwardKeys b\<rparr>) \<noteq> []"
  "keys (orbited_tiled\<lparr>keys := forwardKeys b\<rparr>) = forwardKeys b"
  "camera_direction (orbited_tiled\<lparr>keys := forwardKeys b\<rparr>) = normalize (vec 3 (- 1) (- 4))"
  "camera_position (orbited_tiled\<lparr>keys := forwardKeys b\<rparr>) = vec (- 3) 3 4"
  "activeAction (orbited_tiled\<lparr>keys := forwardKeys b\<rparr>) \<noteq> None"
  "actions (orbited_tiled\<lparr>keys := forwardKeys b\<rparr>) ''Walking'' \<noteq> None"
  "actions (orbited_tiled\<lparr>keys := forwardKeys b\<rparr>) ''Running'' \<noteq> None"
  "mixer (orbited_tiled\<lparr>keys := forwardKeys b\<rparr>) = Some []"
  by (simp_all add: orbited_tiled_def robot_ready_tiled_eq robot_actions vsub_def vec_def)

lemma sqrt_25: "sqrt (vx (vec 3 (- 1) (- 4)) * vx (vec 3 (- 1) (- 4)) +
    vz (vec 3 (- 1) (- 4)) * vz (vec 3 (- 1) (- 4))) = 5"
  by (rule real_sqrt_unique) (simp_all add: vec_def)

lemma two_frames:
  assumes sp: "sp = (if b then moveSpeed * 2 else moveSpeed)"
    and p1: "p1 = vec (3 / 5 * sp) 0 (- 4 / 5 * sp)"
    and c1: "c1 = lerp (vec (- 3) 3 4) (vadd p1 (vec 0 5 (- 10))) 0.1"
    and d1: "d1 = vsub (vadd p1 (vec 0 2 0)) c1"
    and h1: "h1 = sqrt (vx d1 * vx d1 + vz d1 * vz d1)" "0 < h1"
  shows "\<not> throws (run (step_tiled follow_three) [Frame 0, Frame 0]
            (orbited_tiled\<lparr>keys := forwardKeys b\<rparr>))"
    and "map_option position (model (final_state (run (step_tiled follow_three) [Frame 0, Frame 0]
            (orbited_tiled\<lparr>keys := forwardKeys b\<rparr>)))) =
         Some (vec (vx p1 + vx d1 / h1 * sp) 0 (vz p1 + vz d1 / h1 * sp))"
proof -
  let ?s = "orbited_tiled\<lparr>keys := forwardKeys b\<rparr>"
  let ?m = "\<lparr>position = vec 0 0 0, orientation = \<lparr>qx = 0, qy = 0, qz = 0, qw = 1\<rparr>\<rparr>"
  have act: "actions ?s (if b then ''Running'' else ''Walking'') \<noteq> None"
    using orbited_fields(7,8)[of b] by simp
  have p1': "p1 = vec (vx (position ?m) + vx (vec 3 (- 1) (- 4)) / 5 * (if b then moveSpeed * 2 else moveSpeed)) 0
             (vz (position ?m) + vz (vec 3 (- 1) (- 4)) / 5 * (if b then moveSpeed * 2 else moveSpeed))"
    unfolding p1 sp by (simp add: vec_def)
  have c1': "c1 = lerp (camera_position ?s) (vadd p1 (vec 0 5 (- 10))) 0.1"
    unfolding c1 orbited_fields(5) ..
  have five: "(0 :: real) < 5" by simp
  note f1 = follow_frame[OF orbited_fields(1,2,3,4) five sqrt_25[symmetric] orbited_fields(6) act
      orbited_fields(9) p1' c1']
  let ?s1 = "final_state (animate_tiled follow_three 0 ?s)"
  have r1: "animate_tiled follow_three 0 ?s = Inr ?s1"
    using f1(1) by (rule not_throws_Inr)
  have m1: "model ?s1 = Some (?m\<lparr>position := p1\<rparr>)" by (rule f1(2))
  have dir1: "camera_direction ?s1 = normalize d1" unfolding d1 by (rule f1(6))
  have act1: "actions ?s1 (if b then ''Running'' else ''Walking'') \<noteq> None"
    using act f1(9) by simp
  have p2: "vec (vx p1 + vx d1 / h1 * sp) 0 (vz p1 + vz d1 / h1 * sp) =
      vec (vx (position (?m\<lparr>position := p1\<rparr>)) + vx d1 / h1 * (if b then moveSpeed * 2 else moveSpeed)) 0
             (vz (position (?m\<lparr>position := p1\<rparr>)) + vz d1 / h1 * (if b then moveSpeed * 2 else moveSpeed))"
    unfolding sp by simp
  note f2 = follow_frame[OF m1 f1(7) f1(3) dir1 h1(2) h1(1) f1(8) act1 f1(4) p2 refl]
  let ?s2 = "final_state (animate_tiled follow_three 0 ?s1)"
  have r2: "animate_tiled follow_three 0 ?s1 = Inr ?s2"
    using f2(1) by (rule not_throws_Inr)
  have "run (step_tiled follow_three) [Frame 0, Frame 0] ?s =
      bind_result (animate_tiled follow_three 0 ?s) (run (step_tiled follow_three) [Frame 0])"
    by (simp only: run.simps step_tiled.simps)
  also have "\<dots> = run (step_tiled follow_three) [Frame 0] ?s1"
    by (subst r1) (simp only: bind_Inr)
  also have "\<dots> = bind_result (animate_tiled follow_three 0 ?s1) (run (step_tiled follow_three) [])"
    by (simp only: run.simps step_tiled.simps)
  also have "\<dots> = Inr ?s2"
    by (subst r2) (simp only: bind_Inr run.simps)
  finally have run: "run (step_tiled follow_three) [Frame 0, Frame 0] ?s = Inr ?s2" .
  show "\<not> throws (run (step_tiled follow_three) [Frame 0, Frame 0] ?s)"
    unfolding run by simp
  show "map_option position (model (final_state (run (step_tiled follow_three) [Frame 0, Frame 0] ?s))) =
         Some (vec (vx p1 + vx d1 / h1 * sp) 0 (vz p1 + vz d1 / h1 * sp))"
    unfolding run using f2(2) by simp
qed

lemma inv_sqrt_square: "0 < x \<Longrightarrow> (1 / sqrt x) * (1 / sqrt x) = 1 / x"
  by (simp add: field_simps)

lemma square_both_sides:
  fixes x y a b :: real
  assumes "x * b = y * a"
  shows "x * x * (b * b) = y * y * (a * a)"
proof -
  have "x * x * (b * b) = (x * b) * (x * b)" by (simp add: mult_ac)
  also have "\<dots> = (y * a) * (y * a)" unfolding assms ..
  also have "\<dots> = y * y * (a * a)" by (simp add: mult_ac)
  finally show ?thesis .
qed

lemma distances_not_double:
  "horizontalDistance (vec 0 0 0)
      (vec (0.12 + 2.808 / sqrt 15.4144 * 0.2) 0 (- 0.16 + (- 2.744) / sqrt 15.4144 * 0.2)) \<noteq>
   2 * horizontalDistance (vec 0 0 0)
      (vec (0.06 + 2.754 / sqrt 14.7241 * 0.1) 0 (- 0.08 + (- 2.672) / sqrt 14.7241 * 0.1))"
proof
  define a :: real where "a = 1 / sqrt 14.7241"
  define b :: real where "b = 1 / sqrt 15.4144"
  have a2: "a * a = 1 / 14.7241" unfolding a_def by (rule inv_sqrt_square) simp
  have b2: "b * b = 1 / 15.4144" unfolding b_def by (rule inv_sqrt_square) simp
  let ?xs = "0.12 + 0.5616 * b" and ?zs = "- 0.16 - 0.5488 * b"
  let ?xw = "0.06 + 0.2754 * a" and ?zw = "- 0.08 - 0.2672 * a"
  have ws: "?xs * ?xs + ?zs * ?zs = 0.04 + 0.3104 * b + 0.616576 * (b * b)"
    by (simp add: algebra_simps)
  have ww: "?xw * ?xw + ?zw * ?zw = 0.01 + 0.0758 * a + 0.147241 * (a * a)"
    by (simp add: algebra_simps)
  have s: "?xs * ?xs + ?zs * ?zs = 0.08 + 0.3104 * b" unfolding ws b2 by simp
  have w: "?xw * ?xw + ?zw * ?zw = 0.02 + 0.0758 * a" unfolding ww a2 by simp
  have ps: "vec (0.12 + 2.808 / sqrt 15.4144 * 0.2) 0 (- 0.16 + (- 2.744) / sqrt 15.4144 * 0.2) =
      vec ?xs 0 ?zs"
    unfolding b_def by (simp add: vec_def)
  have pw: "vec (0.06 + 2.754 / sqrt 14.7241 * 0.1) 0 (- 0.08 + (- 2.672) / sqrt 14.7241 * 0.1) =
      vec ?xw 0 ?zw"
    unfolding a_def by (simp add: vec_def)
  assume "horizontalDistance (vec 0 0 0)
      (vec (0.12 + 2.808 / sqrt 15.4144 * 0.2) 0 (- 0.16 + (- 2.744) / sqrt 15.4144 * 0.2)) =
   2 * horizontalDistance (vec 0 0 0)
      (vec (0.06 + 2.754 / sqrt 14.7241 * 0.1) 0 (- 0.08 + (- 2.672) / sqrt 14.7241 * 0.1))"
  then have "sqrt (?xs * ?xs + ?zs * ?zs) = 2 * sqrt (?xw * ?xw + ?zw * ?zw)"
    unfolding ps pw by (simp add: horizontalDistance_def vec_def)
  then have "(sqrt (?xs * ?xs + ?zs * ?zs))\<^sup>2 = (2 * sqrt (?xw * ?xw + ?zw * ?zw))\<^sup>2"
    by simp
  then have "?xs * ?xs + ?zs * ?zs = 4 * (?xw * ?xw + ?zw * ?zw)"
    by (simp add: power_mult_distrib)
  then have "0.3104 * b = 0.3032 * a"
    unfolding s w by simp
  then have "0.3104 * 0.3104 * (b * b) = 0.3032 * 0.3032 * (a * a)"
    by (rule square_both_sides)
  then show False unfolding a2 b2 by simp
qed

text \<open>
  The robot at the origin, the camera at (-3, 3, 4) aimed at (0, 2, 0), flat ground, forward
  held for two frames. The first step goes along (0.6, 0, -0.8) at either speed; the
  camera then moves and turns towards the robot, by an amount that depends on how far
  the robot went, so the second step has another heading with sprint than without.
  Both runs complete, and the distance from the start with sprint is not twice the
  distance without it.
\<close>

theorem sprint_not_double_when_camera_follows:
  "\<not> throws (run (step_tiled follow_three) [Frame 0, Frame 0]
        (orbited_tiled\<lparr>keys := forwardKeys False\<rparr>))
   \<and> \<not> throws (run (step_tiled follow_three) [Frame 0, Frame 0]
        (orbited_tiled\<lparr>keys := forwardKeys True\<rparr>))
   \<and> map_option position (model orbited_tiled) = Some (vec 0 0 0)
   \<and> map_option position (model (final_state (run (step_tiled follow_three) [Frame 0, Frame 0]
        (orbited_tiled\<lparr>keys := forwardKeys False\<rparr>)))) =
       Some (vec (0.06 + 2.754 / sqrt 14.7241 * 0.1) 0 (- 0.08 + (- 2.672) / sqrt 14.7241 * 0.1))
   \<and> map_option position (model (final_state (run (step_tiled follow_three) [Frame 0, Frame 0]
        (orbited_tiled\<lparr>keys := forwardKeys True\<rparr>)))) =
       Some (vec (0.12 + 2.808 / sqrt 15.4144 * 0.2) 0 (- 0.16 + (- 2.744) / sqrt 15.4144 * 0.2))
   \<and> horizontalDistance (vec 0 0 0)
        (vec (0.12 + 2.808 / sqrt 15.4144 * 0.2) 0 (- 0.16 + (- 2.744) / sqrt 15.4144 * 0.2)) \<noteq>
      2 * horizontalDistance (vec 0 0 0)
        (vec (0.06 + 2.754 / sqrt 14.7241 * 0.1) 0 (- 0.08 + (- 2.672) / sqrt 14.7241 * 0.1))"
proof -
  have w: "(0.1 :: real) = (if False then moveSpeed * 2 else moveSpeed)"
    "vec 0.06 0 (- 0.08) = vec (3 / 5 * 0.1) 0 (- 4 / 5 * 0.1)"
    "vec (- 2.694) 3.2 2.592 = lerp (vec (- 3) 3 4) (vadd (vec 0.06 0 (- 0.08)) (vec 0 5 (- 10))) 0.1"
    "vec 2.754 (- 1.2) (- 2.672) =
       vsub (vadd (vec 0.06 0 (- 0.08)) (vec 0 2 0)) (vec (- 2.694) 3.2 2.592)"
    "sqrt 14.7241 = sqrt (vx (vec 2.754 (- 1.2) (- 2.672)) * vx (vec 2.754 (- 1.2) (- 2.672)) +
        vz (vec 2.754 (- 1.2) (- 2.672)) * vz (vec 2.754 (- 1.2) (- 2.672)))"
    "0 < sqrt 14.7241"
    by (simp_all add: moveSpeed_def vec_def lerp_def vadd_def vsub_def)
  have s: "(0.2 :: real) = (if True then moveSpeed * 2 else moveSpeed)"
    "vec 0.12 0 (- 0.16) = vec (3 / 5 * 0.2) 0 (- 4 / 5 * 0.2)"
    "vec (- 2.688) 3.2 2.584 = lerp (vec (- 3) 3 4) (vadd (vec 0.12 0 (- 0.16)) (vec 0 5 (- 10))) 0.1"
    "vec 2.808 (- 1.2) (- 2.744) =
       vsub (vadd (vec 0.12 0 (- 0.16)) (vec 0 2 0)) (vec (- 2.688) 3.2 2.584)"
    "sqrt 15.4144 = sqrt (vx (vec 2.808 (- 1.2) (- 2.744)) * vx (vec 2.808 (- 1.2) (- 2.744)) +
        vz (vec 2.808 (- 1.2) (- 2.744)) * vz (vec 2.808 (- 1.2) (- 2.744)))"
    "0 < sqrt 15.4144"
    by (simp_all add: moveSpeed_def vec_def lerp_def vadd_def vsub_def)
  note fw = two_frames[OF w]
  note fs = two_frames[OF s]
  have pw: "vec (vx (vec 0.06 0 (- 0.08)) + vx (vec 2.754 (- 1.2) (- 2.672)) / sqrt 14.7241 * 0.1) 0
        (vz (vec 0.06 0 (- 0.08)) + vz (vec 2.754 (- 1.2) (- 2.672)) / sqrt 14.7241 * 0.1) =
      vec (0.06 + 2.754 / sqrt 14.7241 * 0.1) 0 (- 0.08 + (- 2.672) / sqrt 14.7241 * 0.1)"
    by (simp add: vec_def)
  have ps: "vec (vx (vec 0.12 0 (- 0.16)) + vx (vec 2.808 (- 1.2) (- 2.744)) / sqrt 15.4144 * 0.2) 0
        (vz (vec 0.12 0 (- 0.16)) + vz (vec 2.808 (- 1.2) (- 2.744)) / sqrt 15.4144 * 0.2) =
      vec (0.12 + 2.808 / sqrt 15.4144 * 0.2) 0 (- 0.16 + (- 2.744) / sqrt 15.4144 * 0.2)"
    by (simp add: vec_def)
  have o: "map_option position (model orbited_tiled) = Some (vec 0 0 0)"
    by (simp add: orbited_tiled_def robot_ready_tiled_eq)
  from fw(1) fs(1) o fw(2)[unfolded pw] fs(2)[unfolded ps] distances_not_double
  show ?thesis by blast
qed

end
